theory Spec2Isabelle
  imports Complex_Main
begin

section \<open>JavaScript values and runtime errors\<close>

text \<open>
  The detector service works on already-parsed JSON payloads. A value is one of the JSON
  shapes, or \<open>undefined\<close> (the result of reading a property that is not there). An
  object is its list of own properties in insertion order; a number is a rational (no
  arithmetic is done on numbers here, only the test against zero that truthiness makes).
  A string is the list of its code units.
\<close>

datatype jsval =
    JUndefined
  | JNull
  | JBool bool
  | JNum rat
  | JStr string
  | JArr "jsval list"
  | JObj "(string \<times> jsval) list"

text \<open>
  What a \<open>throw\<close> or a rejected promise carries: an Error object, which has a message
  (the errors that the runtime itself raises are of this kind, with the messages that
  Node.js (V8) prints), or any other value (\<open>throw null\<close>, \<open>Promise.reject()\<close>,
  \<open>throw "text"\<close>), which is \<open>Thrown v\<close>.
\<close>

datatype js_error =
    TypeError string
  | SyntaxError string
  | Error string
  | Thrown jsval

definition bind_err :: "js_error + 'a \<Rightarrow> ('a \<Rightarrow> js_error + 'b) \<Rightarrow> js_error + 'b" where
  "bind_err m f = (case m of Inl e \<Rightarrow> Inl e | Inr x \<Rightarrow> f x)"

text \<open>Truthiness, as \<open>!data\<close>, \<open>value && ...\<close> and \<open>x || 0\<close> test it.\<close>

fun truthy :: "jsval \<Rightarrow> bool" where
  "truthy JUndefined = False"
| "truthy JNull = False"
| "truthy (JBool b) = b"
| "truthy (JNum n) = (n \<noteq> 0)"
| "truthy (JStr s) = (s \<noteq> [])"
| "truthy (JArr xs) = True"
| "truthy (JObj kvs) = True"

fun typeof :: "jsval \<Rightarrow> string" where
  "typeof JUndefined = ''undefined''"
| "typeof JNull = ''object''"
| "typeof (JBool b) = ''boolean''"
| "typeof (JNum n) = ''number''"
| "typeof (JStr s) = ''string''"
| "typeof (JArr xs) = ''object''"
| "typeof (JObj kvs) = ''object''"

section \<open>The runtime and the text-generation service\<close>

text \<open>
  Reading a property follows the prototype chain, and the prototypes of the standard
  library hold functions and objects that are not data. A value that path resolution can
  reach is therefore a data value, or a built-in object or function of the runtime,
  \<open>Builtin n\<close>, known by a name only. A built-in is truthy, and its \<open>typeof\<close> is
  \<open>'object'\<close> or \<open>'function'\<close>.
\<close>

datatype jsany = Data jsval | Builtin string

text \<open>The request object handed to generateAIResponse.\<close>

datatype schema = SystemPromptStructureSchema

record chat_message =
  role :: string
  content :: string

record ai_request =
  messages :: "chat_message list"
  responseFormat :: schema

text \<open>
  What the service takes from outside.
  \<^item> \<open>generateAIResponse\<close> of aiService.js, which resolves to a response or rejects
    with whatever it throws.
  \<^item> The built-ins \<open>JSON.parse\<close> (applied to whatever \<open>response.text\<close> is) and
    \<open>JSON.stringify(value, null, 2)\<close> (applied to an array, where it returns a string
    and, on tree-shaped data, cannot raise).
  \<^item> \<open>template_string\<close>, the conversion to a string that a template literal applies
    to an interpolated value (the identity on a string, \<open>"undefined"\<close> on
    \<open>undefined\<close>); on data it cannot raise.
  \<^item> The standard library's objects: \<open>prototype_member v k\<close> is what the prototype
    chain of the data value \<open>v\<close> gives for a key \<open>k\<close> that is not an own property of
    \<open>v\<close> (\<open>undefined\<close> when no prototype has it, and a raise when an accessor
    raises), and \<open>builtin_member n k\<close> is what reading the key \<open>k\<close> of the
    built-in \<open>n\<close> gives.
\<close>

record runtime =
  generateAIResponse :: "ai_request \<Rightarrow> js_error + jsval"
  JSON_parse :: "jsval \<Rightarrow> js_error + jsval"
  JSON_stringify :: "jsval \<Rightarrow> string"
  template_string :: "jsval \<Rightarrow> string"
  prototype_member :: "jsval \<Rightarrow> string \<Rightarrow> js_error + jsany"
  builtin_member :: "string \<Rightarrow> string \<Rightarrow> js_error + jsany"

section \<open>Property reads\<close>

subsection \<open>Decimal spelling of array indices\<close>

definition digit_char :: "nat \<Rightarrow> char" where
  "digit_char d = ''0123456789'' ! d"

function string_of_nat :: "nat \<Rightarrow> string" where
  "string_of_nat n =
     (if n < 10 then [digit_char n] else string_of_nat (n div 10) @ [digit_char (n mod 10)])"
  by pat_completeness auto
termination
  by (relation "measure (\<lambda>n. n)") auto

declare string_of_nat.simps [simp del]

text \<open>
  The index that a property key denotes on an array or string of length \<open>n\<close>: the
  \<open>i < n\<close> whose canonical decimal spelling is the key.
\<close>

definition index_of_key :: "string \<Rightarrow> nat \<Rightarrow> nat option" where
  "index_of_key k n = find (\<lambda>i. string_of_nat i = k) [0..<n]"

subsection \<open>Reading a property\<close>

text \<open>
  The own properties of a data value: the entries of an object, the elements and the
  length of an array or of a string. Numbers and booleans have none.
\<close>

fun own_property :: "jsval \<Rightarrow> string \<Rightarrow> jsval option" where
  "own_property (JObj kvs) k = map_of kvs k"
| "own_property (JArr xs) k =
     (if k = ''length'' then Some (JNum (of_nat (length xs)))
      else (case index_of_key k (length xs) of Some i \<Rightarrow> Some (xs ! i) | None \<Rightarrow> None))"
| "own_property (JStr s) k =
     (if k = ''length'' then Some (JNum (of_nat (length s)))
      else (case index_of_key k (length s) of Some i \<Rightarrow> Some (JStr [s ! i]) | None \<Rightarrow> None))"
| "own_property v k = None"

text \<open>
  The keys that the service itself reads: the components of the candidate paths, and
  \<open>role\<close>, \<open>content\<close>, \<open>input\<close>, \<open>text\<close> and \<open>message\<close>. None of them is
  the name of a member of a prototype of the standard library (of \<open>Object\<close>,
  \<open>Array\<close>, \<open>String\<close>, \<open>Number\<close> or \<open>Boolean\<close>), so that reading one of them
  from a data value gives the own property, or \<open>undefined\<close>. This is
  \<open>property v k\<close>, for a value \<open>v\<close> that is neither \<open>null\<close> nor
  \<open>undefined\<close>; it is also what reading \<open>length\<close> from a string gives.
\<close>

definition service_keys :: "string list" where
  "service_keys =
     [''input'', ''options'', ''systemMessage'', ''systemPrompt'', ''prompt'', ''system'',
      ''content'', ''userMessage'', ''query'', ''text'', ''message'', ''role'']"

definition property :: "jsval \<Rightarrow> string \<Rightarrow> jsval" where
  "property v k = (case own_property v k of Some x \<Rightarrow> x | None \<Rightarrow> JUndefined)"

text \<open>
  \<open>get_member v k\<close> is the expression \<open>v.k\<close> for a key of the service, on any data
  value: reading a property of \<open>null\<close> or \<open>undefined\<close> raises a TypeError.
\<close>

fun get_member :: "jsval \<Rightarrow> string \<Rightarrow> js_error + jsval" where
  "get_member JUndefined k =
     Inl (TypeError (''Cannot read properties of undefined (reading '' @ [CHR 0x27] @ k @ [CHR 0x27] @ '')''))"
| "get_member JNull k =
     Inl (TypeError (''Cannot read properties of null (reading '' @ [CHR 0x27] @ k @ [CHR 0x27] @ '')''))"
| "get_member v k = Inr (property v k)"

text \<open>
  \<open>read_member rt x k\<close> is the expression \<open>x[k]\<close> for any key, on any value that
  path resolution can reach. On a data value, an own property comes first; a key of the
  service that is not an own property is on no prototype either; for every other key the
  prototype chain of the runtime decides. On a built-in, the runtime decides.
\<close>

fun read_member :: "runtime \<Rightarrow> jsany \<Rightarrow> string \<Rightarrow> js_error + jsany" where
  "read_member rt (Builtin n) k = builtin_member rt n k"
| "read_member rt (Data JUndefined) k =
     Inl (TypeError (''Cannot read properties of undefined (reading '' @ [CHR 0x27] @ k @ [CHR 0x27] @ '')''))"
| "read_member rt (Data JNull) k =
     Inl (TypeError (''Cannot read properties of null (reading '' @ [CHR 0x27] @ k @ [CHR 0x27] @ '')''))"
| "read_member rt (Data v) k =
     (case own_property v k of
        Some x \<Rightarrow> Inr (Data x)
      | None \<Rightarrow>
          (if k \<in> set service_keys then Inr (Data JUndefined) else prototype_member rt v k))"

fun truthy_any :: "jsany \<Rightarrow> bool" where
  "truthy_any (Data v) = truthy v"
| "truthy_any (Builtin n) = True"

section \<open>Path resolution: getNestedValue\<close>

text \<open>\<open>path.split('.')\<close>: the pieces between the separators; never the empty list.\<close>

fun split :: "char \<Rightarrow> string \<Rightarrow> string list" where
  "split c [] = [[]]"
| "split c (x # xs) =
     (if x = c then [] # split c xs
      else (case split c xs of [] \<Rightarrow> [[x]] | w # ws \<Rightarrow> (x # w) # ws))"

text \<open>
  \<open>array.reduce(callback, initial)\<close> with a callback that may raise: the first raise
  ends the loop.
\<close>

fun reduce :: "('a \<Rightarrow> 'b \<Rightarrow> js_error + 'a) \<Rightarrow> 'a \<Rightarrow> 'b list \<Rightarrow> js_error + 'a" where
  "reduce f acc [] = Inr acc"
| "reduce f acc (x # xs) = bind_err (f acc x) (\<lambda>acc'. reduce f acc' xs)"

text \<open>
  The callback of getNestedValue:
  \<open>current && current[key] !== undefined ? current[key] : undefined\<close>.
  The property is read only when \<open>current\<close> is truthy, and then it is read twice.
\<close>

definition nested_step :: "runtime \<Rightarrow> jsany \<Rightarrow> string \<Rightarrow> js_error + jsany" where
  "nested_step rt current key =
     (if truthy_any current
      then bind_err (read_member rt current key)
             (\<lambda>v. if v \<noteq> Data JUndefined then read_member rt current key
                  else Inr (Data JUndefined))
      else Inr (Data JUndefined))"

definition getNestedValue :: "runtime \<Rightarrow> jsval \<Rightarrow> string \<Rightarrow> js_error + jsany" where
  "getNestedValue rt obj path = reduce (nested_step rt) (Data obj) (split (CHR ''.'') path)"

section \<open>Location descriptors and candidate patterns\<close>

datatype structure_type = Direct | Nested | Array

fun type_name :: "structure_type \<Rightarrow> string" where
  "type_name Direct = ''direct''"
| "type_name Nested = ''nested''"
| "type_name Array = ''array''"

text \<open>
  A location descriptor. \<open>arrayIndex\<close> and \<open>parentField\<close> are \<open>None\<close> where the
  JavaScript object has the property missing or \<open>undefined\<close>.
\<close>

record descriptor =
  path :: string
  type :: structure_type
  field :: string
  arrayIndex :: "nat option"
  parentField :: "string option"

text \<open>An entry of the \<open>patterns\<close> tables of the two matchers.\<close>

record pattern =
  pattern_path :: string
  pattern_field :: string
  pattern_parentField :: "string option"

definition system_patterns :: "pattern list" where
  "system_patterns =
     [\<lparr>pattern_path = ''input.options.systemMessage'', pattern_field = ''systemMessage'',
        pattern_parentField = Some ''options''\<rparr>,
      \<lparr>pattern_path = ''systemMessage'', pattern_field = ''systemMessage'',
        pattern_parentField = None\<rparr>,
      \<lparr>pattern_path = ''systemPrompt'', pattern_field = ''systemMessage'',
        pattern_parentField = None\<rparr>,
      \<lparr>pattern_path = ''options.systemMessage'', pattern_field = ''systemMessage'',
        pattern_parentField = Some ''options''\<rparr>,
      \<lparr>pattern_path = ''prompt'', pattern_field = ''prompt'', pattern_parentField = None\<rparr>,
      \<lparr>pattern_path = ''system'', pattern_field = ''system'', pattern_parentField = None\<rparr>]"

definition user_patterns :: "pattern list" where
  "user_patterns =
     [\<lparr>pattern_path = ''input.content'', pattern_field = ''content'',
        pattern_parentField = Some ''input''\<rparr>,
      \<lparr>pattern_path = ''content'', pattern_field = ''content'', pattern_parentField = None\<rparr>,
      \<lparr>pattern_path = ''userMessage'', pattern_field = ''userMessage'',
        pattern_parentField = None\<rparr>,
      \<lparr>pattern_path = ''query'', pattern_field = ''query'', pattern_parentField = None\<rparr>,
      \<lparr>pattern_path = ''text'', pattern_field = ''text'', pattern_parentField = None\<rparr>,
      \<lparr>pattern_path = ''message'', pattern_field = ''message'', pattern_parentField = None\<rparr>,
      \<lparr>pattern_path = ''input.query'', pattern_field = ''query'',
        pattern_parentField = Some ''input''\<rparr>,
      \<lparr>pattern_path = ''input.text'', pattern_field = ''text'',
        pattern_parentField = Some ''input''\<rparr>]"

section \<open>The pattern matchers\<close>

text \<open>
  The test of the array loop, for the role \<open>r\<close>:
  \<open>item && typeof item === 'object' && item.role === r && item.content\<close>.
  The two property reads come after the truthiness test, so they cannot raise, and their
  keys are keys of the service.
\<close>

definition is_role_message :: "string \<Rightarrow> jsval \<Rightarrow> bool" where
  "is_role_message r item \<longleftrightarrow>
     truthy item \<and> typeof item = ''object'' \<and> property item ''role'' = JStr r
     \<and> truthy (property item ''content'')"

text \<open>
  The loop \<open>for (let i = 0; i < data.length; i++)\<close> from index \<open>i\<close> on, over the
  elements not yet visited; it returns at the first element that passes the test.
\<close>

fun scan_messages :: "string \<Rightarrow> jsval list \<Rightarrow> nat \<Rightarrow> descriptor option" where
  "scan_messages r [] i = None"
| "scan_messages r (item # rest) i =
     (if is_role_message r item
      then Some \<lparr>path = ''['' @ string_of_nat i @ ''].content'', type = Array,
                  field = ''content'', arrayIndex = Some i, parentField = Some ''role''\<rparr>
      else scan_messages r rest (Suc i))"

text \<open>
  The test of the pattern loop:
  \<open>value && typeof value === 'string' && value.length > 10\<close>.
  A built-in is not a string.
\<close>

fun is_prompt_text :: "jsany \<Rightarrow> bool" where
  "is_prompt_text (Data v) \<longleftrightarrow>
     truthy v \<and> typeof v = ''string''
     \<and> (case property v ''length'' of JNum n \<Rightarrow> 10 < n | _ \<Rightarrow> False)"
| "is_prompt_text (Builtin n) \<longleftrightarrow> False"

fun probe_patterns ::
  "runtime \<Rightarrow> jsval \<Rightarrow> pattern list \<Rightarrow> js_error + descriptor option" where
  "probe_patterns rt data [] = Inr None"
| "probe_patterns rt data (p # ps) =
     bind_err (getNestedValue rt data (pattern_path p))
       (\<lambda>v. if is_prompt_text v
            then Inr (Some \<lparr>path = pattern_path p, type = Nested, field = pattern_field p,
                             arrayIndex = None, parentField = pattern_parentField p\<rparr>)
            else probe_patterns rt data ps)"

definition findSystemPromptInData :: "runtime \<Rightarrow> jsval \<Rightarrow> js_error + descriptor option" where
  "findSystemPromptInData rt data =
     (if \<not> truthy data then Inr None
      else (case (case data of JArr items \<Rightarrow> scan_messages ''system'' items 0 | _ \<Rightarrow> None) of
              Some found \<Rightarrow> Inr (Some found)
            | None \<Rightarrow>
                (if typeof data = ''object'' then probe_patterns rt data system_patterns
                 else Inr None)))"

definition findUserPromptInData :: "runtime \<Rightarrow> jsval \<Rightarrow> js_error + descriptor option" where
  "findUserPromptInData rt data =
     (if \<not> truthy data then Inr None
      else (case (case data of JArr items \<Rightarrow> scan_messages ''user'' items 0 | _ \<Rightarrow> None) of
              Some found \<Rightarrow> Inr (Some found)
            | None \<Rightarrow>
                (if typeof data = ''object'' then probe_patterns rt data user_patterns
                 else Inr None)))"

section \<open>The consensus analyzer\<close>

text \<open>The record that the orchestrator keeps for each sampled log.\<close>

record analysis_data =
  logIndex :: nat
  input :: jsval
  hasSystemPrompt :: bool
  hasUserPrompt :: bool
  systemPromptLocation :: "descriptor option"
  userPromptLocation :: "descriptor option"

text \<open>The grouping key, the template \<open>`${structure.type}:${structure.path}`\<close>.\<close>

definition structure_key :: "descriptor \<Rightarrow> string" where
  "structure_key s = type_name (type s) @ '':'' @ path s"

text \<open>
  \<open>structureCounts\<close> is an object used as a dictionary: the list of its keys with their
  counts, in insertion order, which is the order \<open>Object.keys\<close> lists them in (every key
  holds a colon, so none is an integer index, and none is a name of \<open>Object.prototype\<close>).
  \<open>increment\<close> is the statement
  \<open>structureCounts[key] = (structureCounts[key] || 0) + 1\<close>: a key already there keeps
  its place, a new key goes to the end.
\<close>

fun increment :: "(string \<times> nat) list \<Rightarrow> string \<Rightarrow> (string \<times> nat) list" where
  "increment [] key = [(key, 1)]"
| "increment ((k, c) # rest) key =
     (if k = key then (k, (if c \<noteq> 0 then c else 0) + 1) # rest
      else (k, c) # increment rest key)"

text \<open>
  The \<open>forEach\<close> over the locations. A location that is \<open>null\<close> makes
  \<open>structure.type\<close> raise.
\<close>

fun count_structures ::
  "(string \<times> nat) list \<Rightarrow> descriptor option list \<Rightarrow> js_error + (string \<times> nat) list" where
  "count_structures structureCounts [] = Inr structureCounts"
| "count_structures structureCounts (None # rest) =
     Inl (TypeError ''Cannot read properties of null (reading 'type')'')"
| "count_structures structureCounts (Some s # rest) =
     count_structures (increment structureCounts (structure_key s)) rest"

text \<open>\<open>x > y\<close> on two dictionary reads; a read of a missing key is \<open>undefined\<close>,
  and a comparison with \<open>undefined\<close> is false.\<close>

fun js_gt :: "nat option \<Rightarrow> nat option \<Rightarrow> bool" where
  "js_gt (Some a) (Some b) = (b < a)"
| "js_gt x y = False"

text \<open>\<open>array.reduce(callback)\<close> with no initial value: the first element starts the
  accumulator, and an empty array raises.\<close>

fun reduce1 :: "('a \<Rightarrow> 'a \<Rightarrow> 'a) \<Rightarrow> 'a list \<Rightarrow> js_error + 'a" where
  "reduce1 f [] = Inl (TypeError ''Reduce of empty array with no initial value'')"
| "reduce1 f (x # xs) = Inr (foldl f x xs)"

definition most_common_key :: "(string \<times> nat) list \<Rightarrow> js_error + string" where
  "most_common_key structureCounts =
     reduce1 (\<lambda>a b. if js_gt (map_of structureCounts a) (map_of structureCounts b) then a else b)
       (map fst structureCounts)"

text \<open>\<open>structures.find(s => `${s.type}:${s.path}` === mostCommonKey)\<close>.\<close>

fun find_structure :: "string \<Rightarrow> descriptor option list \<Rightarrow> js_error + descriptor option" where
  "find_structure key [] = Inr None"
| "find_structure key (None # rest) =
     Inl (TypeError ''Cannot read properties of null (reading 'type')'')"
| "find_structure key (Some s # rest) =
     (if structure_key s = key then Inr (Some s) else find_structure key rest)"

text \<open>
  The body that analyzeSystemPromptPattern and analyzeUserPromptPattern share word for
  word, from the list \<open>structures\<close> on. The unused \<open>mostCommonKey.split(':')\<close> is left
  out. The result is a fresh object with the five properties of the structure found.
\<close>

definition most_common_structure :: "descriptor option list \<Rightarrow> js_error + descriptor" where
  "most_common_structure structures =
     bind_err (count_structures [] structures) (\<lambda>structureCounts.
     bind_err (most_common_key structureCounts) (\<lambda>mostCommonKey.
     bind_err (find_structure mostCommonKey structures) (\<lambda>mostCommonStructure.
       (case mostCommonStructure of
          None \<Rightarrow> Inl (TypeError ''Cannot read properties of undefined (reading 'path')'')
        | Some s \<Rightarrow>
            Inr \<lparr>path = path s, type = type s, field = field s,
                  arrayIndex = arrayIndex s, parentField = parentField s\<rparr>))))"

definition analyzeSystemPromptPattern :: "analysis_data list \<Rightarrow> js_error + descriptor" where
  "analyzeSystemPromptPattern logsWithSystemPrompts =
     most_common_structure (map systemPromptLocation logsWithSystemPrompts)"

definition analyzeUserPromptPattern :: "analysis_data list \<Rightarrow> js_error + descriptor" where
  "analyzeUserPromptPattern logsWithUserPrompts =
     most_common_structure (map userPromptLocation logsWithUserPrompts)"

section \<open>The detection orchestrator\<close>

text \<open>
  What detectSystemPromptStructure returns: an object that the function builds itself
  (a consensus result or the failure record), with \<open>None\<close> for \<open>null\<close>, or the
  value that \<open>JSON.parse\<close> made of the answer of the text-generation service.
\<close>

record detection_result =
  "structure" :: "descriptor option"
  confidence :: rat
  reasoning :: string
  promptType :: "string option"

datatype detection = Detection detection_result | Parsed jsval

text \<open>
  \<open>logs.slice(0, Math.min(3, logs.length))\<close>, for any value of \<open>logs\<close>. Only an
  array gets through: \<open>null\<close> and \<open>undefined\<close> have no properties, a string is
  sliced to a string, on which the \<open>sampleLogs.map\<close> of the next statement is not a
  function, and no other value of the data model has a callable \<open>slice\<close>.
\<close>

fun sample_logs :: "jsval \<Rightarrow> js_error + jsval list" where
  "sample_logs (JArr logs) = Inr (take (min 3 (length logs)) logs)"
| "sample_logs JUndefined =
     Inl (TypeError ''Cannot read properties of undefined (reading 'slice')'')"
| "sample_logs JNull = Inl (TypeError ''Cannot read properties of null (reading 'slice')'')"
| "sample_logs (JStr s) = Inl (TypeError ''sampleLogs.map is not a function'')"
| "sample_logs v = Inl (TypeError ''logs.slice is not a function'')"

text \<open>
  \<open>sampleLogs.map((log, index) => ({logIndex: index, input: log.input, ...}))\<close>, from
  index \<open>i\<close> on. Reading \<open>log.input\<close> raises when the log is \<open>null\<close> or
  \<open>undefined\<close>.
\<close>

fun prepare_analysis_data :: "nat \<Rightarrow> jsval list \<Rightarrow> js_error + analysis_data list" where
  "prepare_analysis_data i [] = Inr []"
| "prepare_analysis_data i (l # rest) =
     bind_err (get_member l ''input'') (\<lambda>v.
     bind_err (prepare_analysis_data (Suc i) rest) (\<lambda>ds.
       Inr (\<lparr>logIndex = i, input = v, hasSystemPrompt = False, hasUserPrompt = False,
              systemPromptLocation = None, userPromptLocation = None\<rparr> # ds)))"

text \<open>The body of the first-pass loop, for one entry of \<open>analysisData\<close>.\<close>

definition check_patterns :: "runtime \<Rightarrow> analysis_data \<Rightarrow> js_error + analysis_data" where
  "check_patterns rt data =
     bind_err (findSystemPromptInData rt (input data)) (\<lambda>systemPrompt.
       (case systemPrompt of
          Some loc \<Rightarrow> Inr (data\<lparr>hasSystemPrompt := True, systemPromptLocation := Some loc\<rparr>)
        | None \<Rightarrow>
            bind_err (findUserPromptInData rt (input data)) (\<lambda>userPrompt.
              (case userPrompt of
                 Some loc \<Rightarrow> Inr (data\<lparr>hasUserPrompt := True, userPromptLocation := Some loc\<rparr>)
               | None \<Rightarrow> Inr data))))"

fun first_pass :: "runtime \<Rightarrow> analysis_data list \<Rightarrow> js_error + analysis_data list" where
  "first_pass rt [] = Inr []"
| "first_pass rt (data # rest) =
     bind_err (check_patterns rt data) (\<lambda>d.
     bind_err (first_pass rt rest) (\<lambda>ds. Inr (d # ds)))"

text \<open>A template literal over several lines: the lines, with a line feed between them.\<close>

fun template_lines :: "string list \<Rightarrow> string" where
  "template_lines [] = []"
| "template_lines [l] = l"
| "template_lines (l # ls) = l @ ''\<newline>'' @ template_lines ls"

definition system_instruction :: string where
  "system_instruction = template_lines
     [''You are an expert at analyzing data structures and identifying where prompts are located. '',
      ''        '',
      ''        Your task is to analyze the provided input data structures and determine the most likely path where prompts are stored.'',
      ''        '',
      ''        First, look for system prompts. Common patterns include:'',
      ''        - messages[0].content (for chat-style inputs where first message is system)'',
      ''        - input.options.systemMessage (for structured inputs)'',
      ''        - systemMessage (direct field)'',
      ''        - prompt (direct field)'',
      ''        - system (direct field)'',
      ''        '',
      ''        If no system prompt is found, look for user prompts that contain the main instruction:'',
      ''        - messages[1].content (for chat-style inputs where second message is user)'',
      ''        - input.content (for direct inputs)'',
      ''        - userMessage (direct field)'',
      ''        - query (direct field)'',
      ''        - text (direct field)'',
      ''        '',
      ''        For each prompt found, also determine where the static part ends and dynamic content begins.'',
      ''        Look for patterns like:'',
      ''        - Template variables like {variable} or {{variable}}'',
      ''        - Dynamic content that changes between logs'',
      ''        - User-specific data that gets inserted'',
      ''        '',
      ''        Return a structured response with the detected path, confidence level, and prompt type.'']"

text \<open>
  The two chat messages of the fallback request. The second one embeds the sampled inputs:
  \<open>analysisData.map(data => ({logIndex: data.logIndex, input: data.input}))\<close>, printed
  by \<open>JSON.stringify\<close>.
\<close>

definition build_messages :: "runtime \<Rightarrow> analysis_data list \<Rightarrow> chat_message list" where
  "build_messages rt analysisData =
     [\<lparr>role = ''system'', content = system_instruction\<rparr>,
      \<lparr>role = ''user'',
       content = template_lines
         [''Analyze these input data structures and determine where prompts are most likely located:'',
          [],
          JSON_stringify rt
            (JArr (map (\<lambda>data. JObj [(''logIndex'', JNum (of_nat (logIndex data))),
                                       (''input'', input data)]) analysisData)),
          [],
          ''Focus on finding consistent patterns across the logs. If no clear pattern exists, provide the most likely structure based on the data format. Also identify where the static part of the prompt ends.'']\<rparr>]"

text \<open>
  The body of the \<open>try\<close> block. The result comes with the list of the requests sent to
  generateAIResponse, in order. \<open>model\<close> is the second parameter of the function.
\<close>

definition detect_try ::
  "runtime \<Rightarrow> jsval \<Rightarrow> 'm \<Rightarrow> (js_error + detection) \<times> ai_request list" where
  "detect_try rt logs model =
     (case bind_err (sample_logs logs) (\<lambda>sampleLogs.
           bind_err (prepare_analysis_data 0 sampleLogs) (first_pass rt)) of
        Inl e \<Rightarrow> (Inl e, [])
      | Inr analysisData \<Rightarrow>
          (let logsWithSystemPrompts = filter hasSystemPrompt analysisData in
           if 2 \<le> length logsWithSystemPrompts then
             (bind_err (analyzeSystemPromptPattern logsWithSystemPrompts) (\<lambda>s.
                Inr (Detection
                  \<lparr>structure = Some s, confidence = 0.9,
                   reasoning = ''Detected consistent system prompt structure across ''
                     @ string_of_nat (length logsWithSystemPrompts) @ '' logs'',
                   promptType = Some ''system''\<rparr>)), [])
           else
             (let logsWithUserPrompts = filter hasUserPrompt analysisData in
              if 2 \<le> length logsWithUserPrompts then
                (bind_err (analyzeUserPromptPattern logsWithUserPrompts) (\<lambda>s.
                   Inr (Detection
                     \<lparr>structure = Some s, confidence = 0.8,
                      reasoning = ''Detected consistent user prompt structure across ''
                        @ string_of_nat (length logsWithUserPrompts)
                        @ '' logs (no system prompt found)'',
                      promptType = Some ''user''\<rparr>)), [])
              else
                (let request = \<lparr>messages = build_messages rt analysisData,
                                 responseFormat = SystemPromptStructureSchema\<rparr> in
                 (bind_err (generateAIResponse rt request) (\<lambda>response.
                  bind_err (get_member response ''text'') (\<lambda>text.
                  bind_err (JSON_parse rt text) (\<lambda>result. Inr (Parsed result)))),
                  [request])))))"

text \<open>
  The interpolation \<open>${error.message}\<close> of the \<open>catch\<close> block. An Error object
  gives its message. On any other thrown value the property \<open>message\<close> is read, which
  raises a TypeError when the value is \<open>null\<close> or \<open>undefined\<close>, and what is read
  is converted to a string.
\<close>

fun error_message :: "runtime \<Rightarrow> js_error \<Rightarrow> js_error + string" where
  "error_message rt (TypeError m) = Inr m"
| "error_message rt (SyntaxError m) = Inr m"
| "error_message rt (Error m) = Inr m"
| "error_message rt (Thrown v) =
     bind_err (get_member v ''message'') (\<lambda>m. Inr (template_string rt m))"

text \<open>
  The whole function: the \<open>catch\<close> block builds the failure record from an error
  raised in the body; an error raised while it does so is not caught. The first component
  is what the returned promise settles to (\<open>Inr\<close>: fulfilled, \<open>Inl\<close>: rejected).
  The \<open>console.error\<close> line is not modelled.
\<close>

definition detectSystemPromptStructure ::
  "runtime \<Rightarrow> jsval \<Rightarrow> 'm \<Rightarrow> (js_error + detection) \<times> ai_request list" where
  "detectSystemPromptStructure rt logs model =
     (case detect_try rt logs model of
        (Inr result, calls) \<Rightarrow> (Inr result, calls)
      | (Inl error, calls) \<Rightarrow>
          (bind_err (error_message rt error) (\<lambda>m.
             Inr (Detection
               \<lparr>structure = None, confidence = 0,
                reasoning = ''Error during detection: '' @ m,
                promptType = None\<rparr>)), calls))"

section \<open>Structure persistence\<close>

text \<open>
  A model record of the ORM: the field the service assigns, and whatever else the record
  holds in the extension. \<open>model.save()\<close> is the ORM's: it is given the in-memory record
  and the data store, and returns the error it rejects with (\<open>None\<close> when it resolves)
  and the data store it leaves. It does not assign \<open>systemPromptStructure\<close> itself.
\<close>

record model_instance =
  systemPromptStructure :: jsval

type_synonym ('a, 'db) save_operation =
  "'a model_instance_scheme \<Rightarrow> 'db \<Rightarrow> js_error option \<times> 'db"

text \<open>
  updateModelSystemPromptStructure. The result is what the promise settles to, the
  in-memory record as the call leaves it (the caller holds a reference to it), and the
  data store. The \<open>catch\<close> block logs and rethrows the same error.
\<close>

definition updateModelSystemPromptStructure ::
  "('a, 'db) save_operation \<Rightarrow> 'a model_instance_scheme \<Rightarrow> jsval \<Rightarrow> 'db
     \<Rightarrow> (js_error + 'a model_instance_scheme) \<times> 'a model_instance_scheme \<times> 'db" where
  "updateModelSystemPromptStructure save model struct db =
     (let model' = model\<lparr>systemPromptStructure := struct\<rparr> in
      (case save model' db of
         (None, db') \<Rightarrow> (Inr model', model', db')
       | (Some error, db') \<Rightarrow> (Inl error, model', db')))"

section \<open>Vocabulary of the consensus property\<close>

text \<open>
  These three definitions are not code of the service: they state, over a list of
  descriptors, which descriptor the consensus analyzer selects. Two descriptors are in
  the same group when they agree on \<open>type\<close> and \<open>path\<close>; the size of a group is the
  number of its occurrences in the list. \<open>last_most_common ds d\<close> says that \<open>d\<close> is the
  first descriptor of its group in \<open>ds\<close>, that no group is larger than the group of
  \<open>d\<close>, and that every other group of the same size has a member in front of the first
  member of the group of \<open>d\<close>: among the groups of greatest size, the group of \<open>d\<close>
  is the one seen last.
\<close>

definition same_group :: "descriptor \<Rightarrow> descriptor \<Rightarrow> bool" where
  "same_group s t \<longleftrightarrow> type t = type s \<and> path t = path s"

definition group_size :: "descriptor list \<Rightarrow> descriptor \<Rightarrow> nat" where
  "group_size ds s = length (filter (same_group s) ds)"

definition last_most_common :: "descriptor list \<Rightarrow> descriptor \<Rightarrow> bool" where
  "last_most_common ds d \<longleftrightarrow>
     find (same_group d) ds = Some d
     \<and> (\<forall>s\<in>set ds. group_size ds s \<le> group_size ds d)
     \<and> (\<forall>s\<in>set ds. group_size ds s = group_size ds d \<longrightarrow> \<not> same_group d s
           \<longrightarrow> (\<exists>t\<in>set (takeWhile (\<lambda>t. \<not> same_group d t) ds). same_group s t))"

section \<open>Vocabulary of the orchestrator's properties\<close>

text \<open>
  These definitions are not code of the service either; they name what the orchestrator
  computes for one log, so that its properties can be stated over the list of logs.
  \<open>system_match log\<close> is the location the system-prompt matcher finds in
  \<open>log.input\<close>, if any. \<open>user_match log\<close> is the location the user-prompt matcher
  finds there, for a log in which the system-prompt matcher found nothing: the
  orchestrator runs the user-prompt matcher on no other log.
  \<open>checked_entry i log\<close> is the entry of \<open>analysisData\<close> for the log at index \<open>i\<close>
  as the first pass leaves it, and \<open>checked_entries i logs\<close> the entries for a list of
  logs that starts at index \<open>i\<close>.
\<close>

definition system_match :: "runtime \<Rightarrow> jsval \<Rightarrow> descriptor option" where
  "system_match rt l =
     (case findSystemPromptInData rt (property l ''input'') of Inr m \<Rightarrow> m | Inl e \<Rightarrow> None)"

definition user_match :: "runtime \<Rightarrow> jsval \<Rightarrow> descriptor option" where
  "user_match rt l =
     (if system_match rt l = None
      then (case findUserPromptInData rt (property l ''input'') of Inr m \<Rightarrow> m | Inl e \<Rightarrow> None)
      else None)"

definition checked_entry :: "runtime \<Rightarrow> nat \<Rightarrow> jsval \<Rightarrow> analysis_data" where
  "checked_entry rt i l =
     \<lparr>logIndex = i, input = property l ''input'',
      hasSystemPrompt = (system_match rt l \<noteq> None),
      hasUserPrompt = (user_match rt l \<noteq> None),
      systemPromptLocation = system_match rt l, userPromptLocation = user_match rt l\<rparr>"

fun checked_entries :: "runtime \<Rightarrow> nat \<Rightarrow> jsval list \<Rightarrow> analysis_data list" where
  "checked_entries rt i [] = []"
| "checked_entries rt i (l # ls) = checked_entry rt i l # checked_entries rt (Suc i) ls"

section \<open>Vocabulary of path resolution\<close>

text \<open>
  Not code of the service: \<open>own_path rt v ks\<close> says that resolving the keys \<open>ks\<close> from
  the data value \<open>v\<close> never goes through a prototype. Each key, read from the value
  reached so far, is an own property of it, or a key of the service, or a key that the
  prototype chain of that value does not have either.
\<close>

fun own_path :: "runtime \<Rightarrow> jsval \<Rightarrow> string list \<Rightarrow> bool" where
  "own_path rt v [] = True"
| "own_path rt v (k # ks) =
     (if truthy v
      then (own_property v k \<noteq> None \<or> k \<in> set service_keys
              \<or> prototype_member rt v k = Inr (Data JUndefined))
           \<and> own_path rt (property v k) ks
      else True)"

section \<open>Properties of path resolution\<close>

lemma property_simps [simp]:
  "property (JObj kvs) k = (case map_of kvs k of Some v \<Rightarrow> v | None \<Rightarrow> JUndefined)"
  "property (JArr xs) k =
     (if k = ''length'' then JNum (of_nat (length xs))
      else (case index_of_key k (length xs) of Some i \<Rightarrow> xs ! i | None \<Rightarrow> JUndefined))"
  "property (JStr s) k =
     (if k = ''length'' then JNum (of_nat (length s))
      else (case index_of_key k (length s) of Some i \<Rightarrow> JStr [s ! i] | None \<Rightarrow> JUndefined))"
  "property JUndefined k = JUndefined"
  "property JNull k = JUndefined"
  "property (JBool b) k = JUndefined"
  "property (JNum n) k = JUndefined"
  by (simp_all add: property_def split: option.splits)

lemma get_member_truthy: "truthy v \<Longrightarrow> get_member v k = Inr (property v k)"
  by (cases v) simp_all

lemma read_member_truthy:
  "truthy v \<Longrightarrow> read_member rt (Data v) k =
     (case own_property v k of
        Some x \<Rightarrow> Inr (Data x)
      | None \<Rightarrow> (if k \<in> set service_keys then Inr (Data JUndefined)
                 else prototype_member rt v k))"
  by (cases v) (auto split: option.splits)

lemma read_member_service:
  "k \<in> set service_keys \<Longrightarrow>
   read_member rt (Data v) k =
     (case get_member v k of Inl e \<Rightarrow> Inl e | Inr x \<Rightarrow> Inr (Data x))"
  by (cases v) (auto simp: property_def split: option.splits)

lemma nested_step_own:
  assumes "truthy v"
    and "own_property v k \<noteq> None \<or> k \<in> set service_keys
         \<or> prototype_member rt v k = Inr (Data JUndefined)"
  shows "nested_step rt (Data v) k = Inr (Data (property v k))"
  using assms
  by (auto simp: nested_step_def read_member_truthy bind_err_def property_def
      split: option.splits)

lemma nested_step_falsy: "\<not> truthy v \<Longrightarrow> nested_step rt (Data v) k = Inr (Data JUndefined)"
  by (simp add: nested_step_def)

lemma reduce_nested_step_undefined:
  "reduce (nested_step rt) (Data JUndefined) ks = Inr (Data JUndefined)"
  by (induction ks) (simp_all add: nested_step_falsy bind_err_def)

lemma foldl_own_undefined:
  "foldl (\<lambda>c k. if truthy c then property c k else JUndefined) JUndefined ks = JUndefined"
  by (induction ks) simp_all

lemma reduce_own_path:
  "own_path rt v ks \<Longrightarrow>
   reduce (nested_step rt) (Data v) ks =
     Inr (Data (foldl (\<lambda>c k. if truthy c then property c k else JUndefined) v ks))"
proof (induction ks arbitrary: v)
  case Nil
  then show ?case by simp
next
  case (Cons k ks)
  show ?case
  proof (cases "truthy v")
    case True
    then have s: "nested_step rt (Data v) k = Inr (Data (property v k))"
      and r: "own_path rt (property v k) ks"
      using Cons.prems by (simp_all add: nested_step_own)
    show ?thesis
      using True Cons.IH [OF r] by (simp add: s bind_err_def)
  next
    case False
    then show ?thesis
      by (simp add: nested_step_falsy bind_err_def reduce_nested_step_undefined
          foldl_own_undefined)
  qed
qed

lemma reduce_append:
  "reduce f acc (xs @ ys) = bind_err (reduce f acc xs) (\<lambda>acc'. reduce f acc' ys)"
  by (induction xs arbitrary: acc) (simp_all add: bind_err_def split: sum.splits)

lemma own_path_service: "set ks \<subseteq> set service_keys \<Longrightarrow> own_path rt v ks"
  by (induction ks arbitrary: v) simp_all

lemma getNestedValue_own_path:
  "own_path rt obj (split (CHR ''.'') p) \<Longrightarrow>
   getNestedValue rt obj p =
     Inr (Data (foldl (\<lambda>c k. if truthy c then property c k else JUndefined) obj
                 (split (CHR ''.'') p)))"
  by (simp add: getNestedValue_def reduce_own_path)

lemma getNestedValue_service:
  "set (split (CHR ''.'') p) \<subseteq> set service_keys \<Longrightarrow>
   getNestedValue rt obj p =
     Inr (Data (foldl (\<lambda>c k. if truthy c then property c k else JUndefined) obj
                 (split (CHR ''.'') p)))"
  by (rule getNestedValue_own_path) (rule own_path_service)

lemma foldl_own_undefined_step:
  assumes "property (foldl (\<lambda>c k. if truthy c then property c k else JUndefined) v ks) k
      = JUndefined"
  shows "foldl (\<lambda>c k. if truthy c then property c k else JUndefined) v (ks @ k # ks')
      = JUndefined"
  using assms by (simp add: foldl_own_undefined)

text \<open>
  Claim C7, as the code has it. Resolving a dot-separated path against a value takes the
  keys left to right, each read from the value reached so far. When no key is resolved
  through a prototype (each key is an own property of the value it is read from, or is
  absent from it and from its prototype chain, as every key of the service is), the
  resolution never raises, and as soon as a key is absent from the value reached, or
  holds \<open>undefined\<close> there, the result of the whole resolution is \<open>undefined\<close>. The
  path \<open>a.b.c\<close> resolves to \<open>"x"\<close> against \<open>{a: {b: {c: "x"}}}\<close>, and to
  \<open>undefined\<close> against \<open>{a: {b: {}}}\<close> (no prototype of an object having a member
  \<open>c\<close>).
\<close>

theorem getNestedValue_resolves_own:
  "(own_path rt obj (split (CHR ''.'') p) \<longrightarrow>
      getNestedValue rt obj p =
        Inr (Data (foldl (\<lambda>cur key. if truthy cur then property cur key else JUndefined) obj
                    (split (CHR ''.'') p)))
      \<and> (split (CHR ''.'') p = ks @ k # ks'
           \<longrightarrow> property (foldl (\<lambda>cur key. if truthy cur then property cur key
                                           else JUndefined) obj ks) k = JUndefined
           \<longrightarrow> getNestedValue rt obj p = Inr (Data JUndefined)))
   \<and> getNestedValue rt (JObj [(''a'', JObj [(''b'', JObj [(''c'', JStr ''x'')])])]) ''a.b.c''
       = Inr (Data (JStr ''x''))
   \<and> (prototype_member rt (JObj []) ''c'' = Inr (Data JUndefined)
        \<longrightarrow> getNestedValue rt (JObj [(''a'', JObj [(''b'', JObj [])])]) ''a.b.c''
              = Inr (Data JUndefined))"
proof (intro conjI impI)
  assume o: "own_path rt obj (split (CHR ''.'') p)"
  show r: "getNestedValue rt obj p =
        Inr (Data (foldl (\<lambda>cur key. if truthy cur then property cur key else JUndefined) obj
                    (split (CHR ''.'') p)))"
    using o by (rule getNestedValue_own_path)
  assume s: "split (CHR ''.'') p = ks @ k # ks'"
    and u: "property (foldl (\<lambda>cur key. if truthy cur then property cur key
                                           else JUndefined) obj ks) k = JUndefined"
  show "getNestedValue rt obj p = Inr (Data JUndefined)"
    unfolding r s using u by (simp add: foldl_own_undefined)
next
  have "own_path rt (JObj [(''a'', JObj [(''b'', JObj [(''c'', JStr ''x'')])])])
      (split (CHR ''.'') ''a.b.c'')"
    by simp
  then show "getNestedValue rt (JObj [(''a'', JObj [(''b'', JObj [(''c'', JStr ''x'')])])])
      ''a.b.c'' = Inr (Data (JStr ''x''))"
    by (simp add: getNestedValue_own_path)
next
  assume "prototype_member rt (JObj []) ''c'' = Inr (Data JUndefined)"
  then have "own_path rt (JObj [(''a'', JObj [(''b'', JObj [])])]) (split (CHR ''.'') ''a.b.c'')"
    by simp
  then show "getNestedValue rt (JObj [(''a'', JObj [(''b'', JObj [])])]) ''a.b.c''
      = Inr (Data JUndefined)"
    by (simp add: getNestedValue_own_path)
qed

theorem getNestedValue_resolves_own_witness:
  "own_path
     \<lparr>generateAIResponse = (\<lambda>request. Inl (Error ''service unavailable'')),
      JSON_parse = (\<lambda>text. Inl (SyntaxError ''Unexpected end of JSON input'')),
      JSON_stringify = (\<lambda>v. ''[]''),
      template_string = (\<lambda>v. case v of JStr s \<Rightarrow> s | _ \<Rightarrow> ''undefined''),
      prototype_member = (\<lambda>v k. case v of
                                   JObj kvs \<Rightarrow> if k = ''constructor''
                                               then Inr (Builtin ''Object'')
                                               else Inr (Data JUndefined)
                                 | _ \<Rightarrow> Inr (Data JUndefined)),
      builtin_member = (\<lambda>n k. if n = ''Object'' \<and> k = ''name''
                               then Inr (Data (JStr ''Object''))
                               else Inr (Data JUndefined))\<rparr>
     (JObj [(''a'', JObj [(''b'', JObj [])])]) (split (CHR ''.'') ''a.b.c'')
   \<and> split (CHR ''.'') ''a.b.c'' = [''a'', ''b''] @ ''c'' # []
   \<and> property
        (foldl (\<lambda>cur key. if truthy cur then property cur key else JUndefined)
           (JObj [(''a'', JObj [(''b'', JObj [])])]) [''a'', ''b'']) ''c'' = JUndefined
   \<and> getNestedValue
       \<lparr>generateAIResponse = (\<lambda>request. Inl (Error ''service unavailable'')),
        JSON_parse = (\<lambda>text. Inl (SyntaxError ''Unexpected end of JSON input'')),
        JSON_stringify = (\<lambda>v. ''[]''),
        template_string = (\<lambda>v. case v of JStr s \<Rightarrow> s | _ \<Rightarrow> ''undefined''),
        prototype_member = (\<lambda>v k. case v of
                                     JObj kvs \<Rightarrow> if k = ''constructor''
                                                 then Inr (Builtin ''Object'')
                                                 else Inr (Data JUndefined)
                                   | _ \<Rightarrow> Inr (Data JUndefined)),
        builtin_member = (\<lambda>n k. if n = ''Object'' \<and> k = ''name''
                                 then Inr (Data (JStr ''Object''))
                                 else Inr (Data JUndefined))\<rparr>
       (JObj [(''a'', JObj [(''b'', JObj [])])]) ''a.b.c''
     = Inr (Data JUndefined)"
proof -
  let ?rt = "\<lparr>generateAIResponse = (\<lambda>request. Inl (Error ''service unavailable'')),
      JSON_parse = (\<lambda>text. Inl (SyntaxError ''Unexpected end of JSON input'')),
      JSON_stringify = (\<lambda>v. ''[]''),
      template_string = (\<lambda>v. case v of JStr s \<Rightarrow> s | _ \<Rightarrow> ''undefined''),
      prototype_member = (\<lambda>v k. case v of
                                   JObj kvs \<Rightarrow> if k = ''constructor''
                                               then Inr (Builtin ''Object'')
                                               else Inr (Data JUndefined)
                                 | _ \<Rightarrow> Inr (Data JUndefined)),
      builtin_member = (\<lambda>n k. if n = ''Object'' \<and> k = ''name''
                               then Inr (Data (JStr ''Object''))
                               else Inr (Data JUndefined))\<rparr>"
  let ?obj = "JObj [(''a'', JObj [(''b'', JObj [])])]"
  have o: "own_path ?rt ?obj (split (CHR ''.'') ''a.b.c'')" by simp
  have s: "split (CHR ''.'') ''a.b.c'' = [''a'', ''b''] @ ''c'' # []" by simp
  have u: "property (foldl (\<lambda>cur key. if truthy cur then property cur key else JUndefined)
           ?obj [''a'', ''b'']) ''c'' = JUndefined"
    by simp
  have "getNestedValue ?rt ?obj ''a.b.c'' = Inr (Data JUndefined)"
    using getNestedValue_resolves_own
      [where rt = ?rt and obj = ?obj and p = "''a.b.c''" and ks = "[''a'', ''b'']"
         and k = "''c''" and ks' = "[]",
       THEN conjunct1, THEN mp, OF o, THEN conjunct2, THEN mp, OF s, THEN mp, OF u] .
  then show ?thesis using o s u by (intro conjI)
qed

text \<open>
  The claim C7 as it is written fails, because \<open>current[key]\<close> follows the prototype
  chain. In a runtime where, as in Node.js, the prototype of an object gives the built-in
  \<open>Object\<close> for the key \<open>constructor\<close>, whose \<open>name\<close> is \<open>"Object"\<close> and whose
  \<open>caller\<close> is an accessor that raises a TypeError: against \<open>{a: {}}\<close>, where the
  key \<open>constructor\<close> is absent from \<open>{}\<close>, the path \<open>a.constructor.name\<close> resolves
  to \<open>"Object"\<close>, not to \<open>undefined\<close>, and the path \<open>a.constructor.caller\<close> raises.
\<close>

theorem getNestedValue_prototype_counterexample:
  "own_property (JObj []) ''constructor'' = None
   \<and> getNestedValue
       \<lparr>generateAIResponse = (\<lambda>request. Inl (Error ''service unavailable'')),
        JSON_parse = (\<lambda>text. Inl (SyntaxError ''Unexpected end of JSON input'')),
        JSON_stringify = (\<lambda>v. ''[]''),
        template_string = (\<lambda>v. case v of JStr s \<Rightarrow> s | _ \<Rightarrow> ''undefined''),
        prototype_member = (\<lambda>v k. case v of
                                     JObj kvs \<Rightarrow> if k = ''constructor''
                                                 then Inr (Builtin ''Object'')
                                                 else Inr (Data JUndefined)
                                   | _ \<Rightarrow> Inr (Data JUndefined)),
        builtin_member = (\<lambda>n k. if n = ''Object'' \<and> k = ''name''
                                 then Inr (Data (JStr ''Object''))
                                 else if n = ''Object'' \<and> k = ''caller''
                                 then Inl (TypeError
           ([CHR 0x27] @ ''caller'' @ [CHR 0x27] @ '', '' @ [CHR 0x27] @ ''callee'' @ [CHR 0x27]
            @ '', and '' @ [CHR 0x27] @ ''arguments'' @ [CHR 0x27]
            @ '' properties may not be accessed on strict mode functions or the arguments objects for calls to them''))
                                 else Inr (Data JUndefined))\<rparr>
       (JObj [(''a'', JObj [])]) ''a.constructor.name''
     = Inr (Data (JStr ''Object''))
   \<and> getNestedValue
       \<lparr>generateAIResponse = (\<lambda>request. Inl (Error ''service unavailable'')),
        JSON_parse = (\<lambda>text. Inl (SyntaxError ''Unexpected end of JSON input'')),
        JSON_stringify = (\<lambda>v. ''[]''),
        template_string = (\<lambda>v. case v of JStr s \<Rightarrow> s | _ \<Rightarrow> ''undefined''),
        prototype_member = (\<lambda>v k. case v of
                                     JObj kvs \<Rightarrow> if k = ''constructor''
                                                 then Inr (Builtin ''Object'')
                                                 else Inr (Data JUndefined)
                                   | _ \<Rightarrow> Inr (Data JUndefined)),
        builtin_member = (\<lambda>n k. if n = ''Object'' \<and> k = ''name''
                                 then Inr (Data (JStr ''Object''))
                                 else if n = ''Object'' \<and> k = ''caller''
                                 then Inl (TypeError
           ([CHR 0x27] @ ''caller'' @ [CHR 0x27] @ '', '' @ [CHR 0x27] @ ''callee'' @ [CHR 0x27]
            @ '', and '' @ [CHR 0x27] @ ''arguments'' @ [CHR 0x27]
            @ '' properties may not be accessed on strict mode functions or the arguments objects for calls to them''))
                                 else Inr (Data JUndefined))\<rparr>
       (JObj [(''a'', JObj [])]) ''a.constructor.caller''
     = Inl (TypeError
           ([CHR 0x27] @ ''caller'' @ [CHR 0x27] @ '', '' @ [CHR 0x27] @ ''callee'' @ [CHR 0x27]
            @ '', and '' @ [CHR 0x27] @ ''arguments'' @ [CHR 0x27]
            @ '' properties may not be accessed on strict mode functions or the arguments objects for calls to them''))"
  by (simp add: getNestedValue_def nested_step_def bind_err_def service_keys_def)

section \<open>Properties of the pattern matchers\<close>

lemma digit_char_digit: "d < 10 \<Longrightarrow> digit_char d \<in> set ''0123456789''"
  unfolding digit_char_def by (rule nth_mem) simp

lemma string_of_nat_digits: "set (string_of_nat n) \<subseteq> set ''0123456789''"
proof (induction n rule: string_of_nat.induct)
  case (1 n)
  show ?case
  proof (cases "n < 10")
    case True
    then show ?thesis
      using digit_char_digit [of n] by (subst string_of_nat.simps) simp
  next
    case False
    then have "set (string_of_nat (n div 10)) \<subseteq> set ''0123456789''"
      using 1 by simp
    moreover have "digit_char (n mod 10) \<in> set ''0123456789''"
      by (rule digit_char_digit) simp
    ultimately show ?thesis
      using False by (subst string_of_nat.simps) simp
  qed
qed

lemma index_of_key_None:
  assumes "\<not> set k \<subseteq> set ''0123456789''"
  shows "index_of_key k n = None"
proof -
  have "string_of_nat i \<noteq> k" for i
    using assms string_of_nat_digits [of i] by auto
  then show ?thesis by (simp add: index_of_key_def find_None_iff)
qed

lemma is_role_message_iff:
  "is_role_message r item \<longleftrightarrow>
     (\<exists>kvs c. item = JObj kvs \<and> map_of kvs ''role'' = Some (JStr r)
        \<and> map_of kvs ''content'' = Some c \<and> truthy c)"
proof (cases item)
  case (JObj kvs)
  then show ?thesis
    by (auto simp: is_role_message_def split: option.splits)
next
  case (JArr xs)
  then show ?thesis by (simp add: is_role_message_def index_of_key_None)
qed (simp_all add: is_role_message_def)

lemma scan_messages_first:
  "i < length items \<Longrightarrow> is_role_message r (items ! i)
   \<Longrightarrow> \<forall>j<i. \<not> is_role_message r (items ! j)
   \<Longrightarrow> scan_messages r items n =
       Some \<lparr>path = ''['' @ string_of_nat (n + i) @ ''].content'', type = Array,
             field = ''content'', arrayIndex = Some (n + i), parentField = Some ''role''\<rparr>"
proof (induction items arbitrary: i n)
  case Nil
  then show ?case by simp
next
  case (Cons x xs)
  show ?case
  proof (cases i)
    case 0
    then show ?thesis using Cons.prems by simp
  next
    case (Suc i')
    have nx: "\<not> is_role_message r x" using Cons.prems(3) Suc by auto
    have "scan_messages r xs (Suc n) =
       Some \<lparr>path = ''['' @ string_of_nat (Suc n + i') @ ''].content'', type = Array,
             field = ''content'', arrayIndex = Some (Suc n + i'), parentField = Some ''role''\<rparr>"
      using Cons.prems Suc by (intro Cons.IH) auto
    then show ?thesis using nx Suc by simp
  qed
qed

lemma scan_messages_None:
  "scan_messages r items n = None \<longleftrightarrow> (\<forall>item\<in>set items. \<not> is_role_message r item)"
  by (induction items arbitrary: n) auto

lemma is_prompt_text_iff:
  "is_prompt_text (Data v) \<longleftrightarrow> (case v of JStr s \<Rightarrow> 10 < length s | _ \<Rightarrow> False)"
proof (cases v)
  case (JStr s)
  have "(10 < (of_nat (length s) :: rat)) = (10 < length s)"
    using of_nat_less_iff [of 10 "length s", where ?'a = rat] by simp
  then show ?thesis using JStr by auto
qed simp_all

lemma system_patterns_service:
  "\<forall>p\<in>set system_patterns. set (split (CHR ''.'') (pattern_path p)) \<subseteq> set service_keys"
  by (simp add: system_patterns_def service_keys_def)

lemma user_patterns_service:
  "\<forall>p\<in>set user_patterns. set (split (CHR ''.'') (pattern_path p)) \<subseteq> set service_keys"
  by (simp add: user_patterns_def service_keys_def)

lemma probe_patterns_find:
  assumes "\<forall>p\<in>set ps. set (split (CHR ''.'') (pattern_path p)) \<subseteq> set service_keys"
  shows "probe_patterns rt data ps =
     Inr (case find (\<lambda>p. case getNestedValue rt data (pattern_path p) of
                            Inr (Data (JStr s)) \<Rightarrow> 10 < length s | _ \<Rightarrow> False) ps of
            None \<Rightarrow> None
          | Some p \<Rightarrow> Some \<lparr>path = pattern_path p, type = Nested, field = pattern_field p,
                            arrayIndex = None, parentField = pattern_parentField p\<rparr>)"
  using assms
proof (induction ps)
  case Nil
  then show ?case by simp
next
  case (Cons p ps)
  obtain v where v: "getNestedValue rt data (pattern_path p) = Inr (Data v)"
    using Cons.prems getNestedValue_service [of "pattern_path p" rt data] by auto
  have "probe_patterns rt data ps =
     Inr (case find (\<lambda>p. case getNestedValue rt data (pattern_path p) of
                            Inr (Data (JStr s)) \<Rightarrow> 10 < length s | _ \<Rightarrow> False) ps of
            None \<Rightarrow> None
          | Some p \<Rightarrow> Some \<lparr>path = pattern_path p, type = Nested, field = pattern_field p,
                            arrayIndex = None, parentField = pattern_parentField p\<rparr>)"
    using Cons by simp
  then show ?case
    using v by (cases v) (simp_all add: bind_err_def is_prompt_text_iff)
qed

text \<open>
  Claim C5. On an array input, when some element is an object whose \<open>role\<close> is
  \<open>"system"\<close> and whose \<open>content\<close> is non-empty, the system-prompt matcher returns
  the array descriptor of the first such index \<open>i\<close>:
  \<open>{path: "[i].content", type: "array", field: "content", arrayIndex: i, parentField: "role"}\<close>.
  The test of the loop, \<open>is_role_message\<close>, is exactly that: the element is an
  object with the role and a truthy content (a non-empty string, or any other value that
  is not \<open>undefined\<close>, \<open>null\<close>, \<open>false\<close>, \<open>0\<close> or \<open>""\<close>).
\<close>

theorem findSystemPromptInData_array:
  "(is_role_message ''system'' item \<longleftrightarrow>
      (\<exists>kvs c. item = JObj kvs \<and> map_of kvs ''role'' = Some (JStr ''system'')
         \<and> map_of kvs ''content'' = Some c \<and> truthy c))
   \<and> (i < length items \<longrightarrow> is_role_message ''system'' (items ! i)
        \<longrightarrow> (\<forall>j<i. \<not> is_role_message ''system'' (items ! j))
        \<longrightarrow> findSystemPromptInData rt (JArr items) =
              Inr (Some \<lparr>path = ''['' @ string_of_nat i @ ''].content'', type = Array,
                         field = ''content'', arrayIndex = Some i,
                         parentField = Some ''role''\<rparr>))"
proof (intro conjI impI)
  show "is_role_message ''system'' item \<longleftrightarrow>
      (\<exists>kvs c. item = JObj kvs \<and> map_of kvs ''role'' = Some (JStr ''system'')
         \<and> map_of kvs ''content'' = Some c \<and> truthy c)"
    by (rule is_role_message_iff)
next
  assume "i < length items" "is_role_message ''system'' (items ! i)"
    "\<forall>j<i. \<not> is_role_message ''system'' (items ! j)"
  then have "scan_messages ''system'' items 0 =
       Some \<lparr>path = ''['' @ string_of_nat (0 + i) @ ''].content'', type = Array,
             field = ''content'', arrayIndex = Some (0 + i), parentField = Some ''role''\<rparr>"
    by (rule scan_messages_first)
  then show "findSystemPromptInData rt (JArr items) =
              Inr (Some \<lparr>path = ''['' @ string_of_nat i @ ''].content'', type = Array,
                         field = ''content'', arrayIndex = Some i,
                         parentField = Some ''role''\<rparr>)"
    by (simp add: findSystemPromptInData_def)
qed

theorem findSystemPromptInData_array_witness:
  "(1::nat) < length [JObj [(''role'', JStr ''user''), (''content'', JStr ''hi'')],
                      JObj [(''role'', JStr ''system''), (''content'', JStr ''be kind'')]]
   \<and> is_role_message ''system''
        ([JObj [(''role'', JStr ''user''), (''content'', JStr ''hi'')],
          JObj [(''role'', JStr ''system''), (''content'', JStr ''be kind'')]] ! 1)
   \<and> \<not> is_role_message ''system''
        ([JObj [(''role'', JStr ''user''), (''content'', JStr ''hi'')],
          JObj [(''role'', JStr ''system''), (''content'', JStr ''be kind'')]] ! 0)
   \<and> findSystemPromptInData
        \<lparr>generateAIResponse = (\<lambda>request. Inl (Error ''service unavailable'')),
         JSON_parse = (\<lambda>text. Inl (SyntaxError ''Unexpected end of JSON input'')),
         JSON_stringify = (\<lambda>v. ''[]''),
         template_string = (\<lambda>v. case v of JStr s \<Rightarrow> s | _ \<Rightarrow> ''undefined''),
         prototype_member = (\<lambda>v k. Inr (Data JUndefined)),
         builtin_member = (\<lambda>n k. Inr (Data JUndefined))\<rparr>
        (JArr [JObj [(''role'', JStr ''user''), (''content'', JStr ''hi'')],
               JObj [(''role'', JStr ''system''), (''content'', JStr ''be kind'')]])
       = Inr (Some \<lparr>path = ''[1].content'', type = Array, field = ''content'',
                    arrayIndex = Some 1, parentField = Some ''role''\<rparr>)"
  using findSystemPromptInData_array
    [where item = JNull and i = 1
       and items = "[JObj [(''role'', JStr ''user''), (''content'', JStr ''hi'')],
                     JObj [(''role'', JStr ''system''), (''content'', JStr ''be kind'')]]"
       and rt = "\<lparr>generateAIResponse = (\<lambda>request. Inl (Error ''service unavailable'')),
         JSON_parse = (\<lambda>text. Inl (SyntaxError ''Unexpected end of JSON input'')),
         JSON_stringify = (\<lambda>v. ''[]''),
         template_string = (\<lambda>v. case v of JStr s \<Rightarrow> s | _ \<Rightarrow> ''undefined''),
         prototype_member = (\<lambda>v k. Inr (Data JUndefined)),
         builtin_member = (\<lambda>n k. Inr (Data JUndefined))\<rparr>"]
  by (simp add: is_role_message_def string_of_nat.simps digit_char_def)


text \<open>
  Claim C6. On an object input (an array is one too) that is truthy and has no
  array-pattern match, the system-prompt matcher probes the paths
  \<open>input.options.systemMessage\<close>, \<open>systemMessage\<close>, \<open>systemPrompt\<close>,
  \<open>options.systemMessage\<close>, \<open>prompt\<close>, \<open>system\<close> in that order, and returns the
  descriptor of type \<open>nested\<close> of the first one that resolves to a string of more than
  10 characters; when none does, it returns no match.
\<close>

theorem findSystemPromptInData_nested:
  "map pattern_path system_patterns =
     [''input.options.systemMessage'', ''systemMessage'', ''systemPrompt'',
      ''options.systemMessage'', ''prompt'', ''system'']
   \<and> (truthy data \<longrightarrow> typeof data = ''object''
        \<longrightarrow> (\<forall>items. data = JArr items
               \<longrightarrow> (\<forall>item\<in>set items. \<not> is_role_message ''system'' item))
        \<longrightarrow> findSystemPromptInData rt data =
              Inr (case find (\<lambda>p. case getNestedValue rt data (pattern_path p) of
                                     Inr (Data (JStr s)) \<Rightarrow> 10 < length s | _ \<Rightarrow> False)
                          system_patterns of
                     None \<Rightarrow> None
                   | Some p \<Rightarrow>
                       Some \<lparr>path = pattern_path p, type = Nested, field = pattern_field p,
                             arrayIndex = None, parentField = pattern_parentField p\<rparr>))"
proof (intro conjI impI)
  show "map pattern_path system_patterns =
     [''input.options.systemMessage'', ''systemMessage'', ''systemPrompt'',
      ''options.systemMessage'', ''prompt'', ''system'']"
    by (simp add: system_patterns_def)
next
  assume t: "truthy data" and o: "typeof data = ''object''"
    and a: "\<forall>items. data = JArr items
               \<longrightarrow> (\<forall>item\<in>set items. \<not> is_role_message ''system'' item)"
  have "(case data of JArr items \<Rightarrow> scan_messages ''system'' items 0 | _ \<Rightarrow> None) = None"
    using a by (cases data) (simp_all add: scan_messages_None)
  then show "findSystemPromptInData rt data =
              Inr (case find (\<lambda>p. case getNestedValue rt data (pattern_path p) of
                                     Inr (Data (JStr s)) \<Rightarrow> 10 < length s | _ \<Rightarrow> False)
                          system_patterns of
                     None \<Rightarrow> None
                   | Some p \<Rightarrow>
                       Some \<lparr>path = pattern_path p, type = Nested, field = pattern_field p,
                             arrayIndex = None, parentField = pattern_parentField p\<rparr>)"
    using t o
    by (simp add: findSystemPromptInData_def probe_patterns_find [OF system_patterns_service])
qed

theorem findSystemPromptInData_nested_witness:
  "truthy (JObj [(''systemPrompt'', JStr ''tiny''),
                 (''system'', JStr ''You are a careful reviewer.''),
                 (''prompt'', JStr ''Answer in one sentence.'')])
   \<and> typeof (JObj [(''systemPrompt'', JStr ''tiny''),
                   (''system'', JStr ''You are a careful reviewer.''),
                   (''prompt'', JStr ''Answer in one sentence.'')]) = ''object''
   \<and> (\<forall>items. JObj [(''systemPrompt'', JStr ''tiny''),
                      (''system'', JStr ''You are a careful reviewer.''),
                      (''prompt'', JStr ''Answer in one sentence.'')] \<noteq> JArr items)
   \<and> findSystemPromptInData
        \<lparr>generateAIResponse = (\<lambda>request. Inl (Error ''service unavailable'')),
         JSON_parse = (\<lambda>text. Inl (SyntaxError ''Unexpected end of JSON input'')),
         JSON_stringify = (\<lambda>v. ''[]''),
         template_string = (\<lambda>v. case v of JStr s \<Rightarrow> s | _ \<Rightarrow> ''undefined''),
         prototype_member = (\<lambda>v k. Inr (Data JUndefined)),
         builtin_member = (\<lambda>n k. Inr (Data JUndefined))\<rparr>
        (JObj [(''systemPrompt'', JStr ''tiny''),
               (''system'', JStr ''You are a careful reviewer.''),
               (''prompt'', JStr ''Answer in one sentence.'')])
       = Inr (Some \<lparr>path = ''prompt'', type = Nested, field = ''prompt'',
                    arrayIndex = None, parentField = None\<rparr>)"
  using findSystemPromptInData_nested
    [where data = "JObj [(''systemPrompt'', JStr ''tiny''),
                         (''system'', JStr ''You are a careful reviewer.''),
                         (''prompt'', JStr ''Answer in one sentence.'')]"
       and rt = "\<lparr>generateAIResponse = (\<lambda>request. Inl (Error ''service unavailable'')),
         JSON_parse = (\<lambda>text. Inl (SyntaxError ''Unexpected end of JSON input'')),
         JSON_stringify = (\<lambda>v. ''[]''),
         template_string = (\<lambda>v. case v of JStr s \<Rightarrow> s | _ \<Rightarrow> ''undefined''),
         prototype_member = (\<lambda>v k. Inr (Data JUndefined)),
         builtin_member = (\<lambda>n k. Inr (Data JUndefined))\<rparr>"]
  by (simp add: system_patterns_def getNestedValue_service service_keys_def)

section \<open>Properties of the consensus analyzer\<close>

lemma structure_key_eq_iff:
  "structure_key s = structure_key t \<longleftrightarrow> type s = type t \<and> path s = path t"
  by (cases "type s"; cases "type t") (auto simp: structure_key_def)

lemma same_group_key: "same_group s t \<longleftrightarrow> structure_key t = structure_key s"
  by (auto simp: same_group_def structure_key_eq_iff)

lemma count_structures_Some:
  "count_structures cs (map Some ds) = Inr (foldl increment cs (map structure_key ds))"
  by (induction ds arbitrary: cs) simp_all

lemma map_of_increment:
  "map_of (increment cs k) =
     (map_of cs)(k \<mapsto> (case map_of cs k of None \<Rightarrow> 1 | Some c \<Rightarrow> c + 1))"
  by (induction cs k rule: increment.induct) (auto simp: fun_eq_iff)

lemma keys_increment:
  "map fst (increment cs k) = (if k \<in> set (map fst cs) then map fst cs else map fst cs @ [k])"
  by (induction cs k rule: increment.induct) auto

lemma map_of_counts:
  "map_of (foldl increment [] ks) k =
     (if k \<in> set ks then Some (count_list ks k) else None)"
proof (induction ks rule: rev_induct)
  case Nil
  then show ?case by simp
next
  case (snoc x ks)
  then show ?case by (auto simp: map_of_increment count_list_0_iff)
qed

lemma keys_counts_set: "set (map fst (foldl increment [] ks)) = set ks"
  by (induction ks rule: rev_induct) (auto simp: keys_increment)

lemma keys_counts_order:
  "map fst (foldl increment [] ks) = A @ b # C \<Longrightarrow> a \<in> set A
   \<Longrightarrow> a \<in> set (takeWhile (\<lambda>x. x \<noteq> b) ks)"
proof (induction ks arbitrary: A C rule: rev_induct)
  case Nil
  then show ?case by simp
next
  case (snoc x ks)
  let ?K = "map fst (foldl increment [] ks)"
  show ?case
  proof (cases "x \<in> set ?K")
    case True
    then have "?K = A @ b # C" using snoc.prems(1) by (simp add: keys_increment)
    then have "a \<in> set (takeWhile (\<lambda>x. x \<noteq> b) ks)" and "b \<in> set ks"
      using snoc.IH snoc.prems(2) keys_counts_set [of ks] by auto
    then show ?thesis by (simp add: takeWhile_append1)
  next
    case False
    then have eq: "?K @ [x] = A @ b # C" using snoc.prems(1) by (simp add: keys_increment)
    show ?thesis
    proof (cases C rule: rev_cases)
      case Nil
      then have "?K = A" "b = x" using eq by auto
      then have "a \<in> set ks" "x \<notin> set ks"
        using snoc.prems(2) False keys_counts_set [of ks] by auto
      then have "takeWhile (\<lambda>z. z \<noteq> x) (ks @ [x]) = ks"
        by (subst takeWhile_append2) auto
      then show ?thesis using \<open>b = x\<close> \<open>a \<in> set ks\<close> by simp
    next
      case (snoc C' y)
      then have "?K = A @ b # C'" using eq by auto
      then have "a \<in> set (takeWhile (\<lambda>x. x \<noteq> b) ks)" and "b \<in> set ks"
        using snoc.IH snoc.prems(2) keys_counts_set [of ks] by auto
      then show ?thesis by (simp add: takeWhile_append1)
    qed
  qed
qed

lemma foldl_last_max:
  assumes "\<forall>k\<in>set (x # xs). m k = Some (w k)"
  shows "\<exists>A C. x # xs = A @ foldl (\<lambda>a b. if js_gt (m a) (m b) then a else b) x xs # C
           \<and> (\<forall>a\<in>set A. w a \<le> w (foldl (\<lambda>a b. if js_gt (m a) (m b) then a else b) x xs))
           \<and> (\<forall>c\<in>set C. w c < w (foldl (\<lambda>a b. if js_gt (m a) (m b) then a else b) x xs))"
  using assms
proof (induction xs rule: rev_induct)
  case Nil
  show ?case
    by (rule exI [of _ "[]"], rule exI [of _ "[]"]) simp
next
  case (snoc y ys)
  let ?f = "\<lambda>a b. if js_gt (m a) (m b) then a else b"
  let ?r = "foldl ?f x ys"
  have "\<forall>k\<in>set (x # ys). m k = Some (w k)" using snoc.prems by simp
  then obtain A C where d: "x # ys = A @ ?r # C" and a: "\<forall>a\<in>set A. w a \<le> w ?r"
    and c: "\<forall>c\<in>set C. w c < w ?r"
    using snoc.IH by blast
  have sets: "set (x # ys) = set A \<union> {?r} \<union> set C"
    by (subst d) auto
  have rin: "?r \<in> set (x # ys)" by (subst sets) simp
  have my: "m y = Some (w y)" using snoc.prems by simp
  have mr: "m ?r = Some (w ?r)"
    using \<open>\<forall>k\<in>set (x # ys). m k = Some (w k)\<close> rin by blast
  show ?case
  proof (cases "w y < w ?r")
    case True
    then have r: "foldl ?f x (ys @ [y]) = ?r" using mr my by simp
    have 1: "x # ys @ [y] = A @ ?r # (C @ [y])" using d by simp
    have 2: "\<forall>c\<in>set (C @ [y]). w c < w ?r" using c True by auto
    show ?thesis
      unfolding r by (rule exI [of _ A], rule exI [of _ "C @ [y]"]) (use 1 2 a in blast)
  next
    case False
    then have r: "foldl ?f x (ys @ [y]) = y" using mr my by simp
    have 1: "x # ys @ [y] = (x # ys) @ y # []" by simp
    have 2: "\<forall>a\<in>set (x # ys). w a \<le> w y"
    proof
      fix k assume "k \<in> set (x # ys)"
      then have "k \<in> set A \<or> k = ?r \<or> k \<in> set C" using sets by auto
      then have "w k \<le> w ?r" using a c by (auto simp: less_imp_le)
      then show "w k \<le> w y" using False by simp
    qed
    show ?thesis
      unfolding r by (rule exI [of _ "x # ys"], rule exI [of _ "[]"]) (use 1 2 in simp)
  qed
qed

lemma find_structure_Some:
  "find_structure key (map Some ds) = Inr (find (\<lambda>s. structure_key s = key) ds)"
  by (induction ds) simp_all

lemma count_list_map:
  "count_list (map f xs) y = length (filter (\<lambda>x. f x = y) xs)"
  by (induction xs) simp_all

lemma group_size_count:
  "group_size ds s = count_list (map structure_key ds) (structure_key s)"
  by (simp add: group_size_def count_list_map same_group_key [abs_def])

lemma most_common_structure_Some:
  assumes "ds \<noteq> []"
  shows "\<exists>d. most_common_structure (map Some ds) = Inr d \<and> last_most_common ds d"
proof -
  let ?ks = "map structure_key ds"
  let ?cs = "foldl increment [] ?ks"
  let ?f = "\<lambda>a b. if js_gt (map_of ?cs a) (map_of ?cs b) then a else b"
  have setK: "set (map fst ?cs) = set ?ks" by (rule keys_counts_set)
  then have "map fst ?cs \<noteq> []" using assms by auto
  then obtain x xs where K: "map fst ?cs = x # xs" by (cases "map fst ?cs") auto
  let ?r = "foldl ?f x xs"
  have key: "most_common_key ?cs = Inr ?r"
    by (simp add: most_common_key_def K)
  have "\<forall>k\<in>set (x # xs). map_of ?cs k = Some (count_list ?ks k)"
    using setK K map_of_counts [of ?ks] by simp
  then obtain A C where d: "x # xs = A @ ?r # C"
    and a: "\<forall>a\<in>set A. count_list ?ks a \<le> count_list ?ks ?r"
    and c: "\<forall>c\<in>set C. count_list ?ks c < count_list ?ks ?r"
    using foldl_last_max [of x xs "map_of ?cs" "count_list ?ks"] by blast
  have sets: "set ?ks = set A \<union> {?r} \<union> set C"
  proof -
    have "set ?ks = set (x # xs)" using setK K by simp
    also have "\<dots> = set (A @ ?r # C)" by (subst d) (rule refl)
    finally show ?thesis by auto
  qed
  then have "?r \<in> structure_key ` set ds" by auto
  then have "find (\<lambda>s. structure_key s = ?r) ds \<noteq> None"
    by (auto simp: find_None_iff)
  then obtain d where f: "find (\<lambda>s. structure_key s = ?r) ds = Some d" by auto
  then have kd: "structure_key d = ?r" by (auto simp: find_Some_iff)
  have "most_common_structure (map Some ds) =
      Inr \<lparr>path = path d, type = type d, field = field d,
           arrayIndex = arrayIndex d, parentField = parentField d\<rparr>"
    unfolding most_common_structure_def count_structures_Some bind_err_def sum.case key
      find_structure_Some f option.case
    by (rule refl)
  then have res: "most_common_structure (map Some ds) = Inr d" by simp
  have sg: "same_group d = (\<lambda>s. structure_key s = ?r)"
    by (simp add: fun_eq_iff same_group_key kd)
  have 1: "find (same_group d) ds = Some d" using f by (simp add: sg)
  have 2: "\<forall>s\<in>set ds. group_size ds s \<le> group_size ds d"
  proof
    fix s assume "s \<in> set ds"
    then have "structure_key s \<in> set A \<union> {?r} \<union> set C" using sets by auto
    then have "count_list ?ks (structure_key s) \<le> count_list ?ks ?r"
      using a c by (auto simp: less_imp_le)
    then show "group_size ds s \<le> group_size ds d" by (simp add: group_size_count kd)
  qed
  have 3: "\<forall>s\<in>set ds. group_size ds s = group_size ds d \<longrightarrow> \<not> same_group d s
           \<longrightarrow> (\<exists>t\<in>set (takeWhile (\<lambda>t. \<not> same_group d t) ds). same_group s t)"
  proof (intro ballI impI)
    fix s assume s: "s \<in> set ds" and eq: "group_size ds s = group_size ds d"
      and ns: "\<not> same_group d s"
    have "structure_key s \<in> set A \<union> {?r} \<union> set C" using s sets by auto
    moreover have "structure_key s \<noteq> ?r" using ns by (simp add: sg)
    moreover have "structure_key s \<notin> set C"
      using c eq by (auto simp: group_size_count kd)
    ultimately have inA: "structure_key s \<in> set A" by auto
    have "map fst ?cs = A @ ?r # C" by (rule trans [OF K d])
    then have "structure_key s \<in> set (takeWhile (\<lambda>k. k \<noteq> ?r) ?ks)"
      using inA by (rule keys_counts_order)
    then have "structure_key s \<in> structure_key ` set (takeWhile (\<lambda>t. \<not> same_group d t) ds)"
      by (simp add: takeWhile_map sg comp_def)
    then show "\<exists>t\<in>set (takeWhile (\<lambda>t. \<not> same_group d t) ds). same_group s t"
      by (auto simp: same_group_key)
  qed
  show ?thesis using res 1 2 3 by (auto simp: last_most_common_def)
qed

text \<open>
  Claim C1, as the code has it. Given a non-empty list of location descriptors (the
  locations of the logs handed to analyzeSystemPromptPattern or to
  analyzeUserPromptPattern), the analyzer returns a descriptor of the list, verbatim: the
  first descriptor of a group of greatest occurrence count. When two or more groups are
  tied for the greatest count, the group selected is the one whose key was inserted last
  (the last maximal key in first-seen order), not the first.
\<close>

theorem analyze_pattern_last_most_common:
  assumes "ds \<noteq> []"
  shows "(map systemPromptLocation logs = map Some ds
          \<longrightarrow> (\<exists>d. analyzeSystemPromptPattern logs = Inr d \<and> last_most_common ds d))
       \<and> (map userPromptLocation logs = map Some ds
          \<longrightarrow> (\<exists>d. analyzeUserPromptPattern logs = Inr d \<and> last_most_common ds d))"
  using most_common_structure_Some [OF assms]
  by (simp add: analyzeSystemPromptPattern_def analyzeUserPromptPattern_def)

theorem analyze_pattern_last_most_common_witness:
  "[\<lparr>path = ''[0].content'', type = Array, field = ''content'', arrayIndex = Some 0,
      parentField = Some ''role''\<rparr>,
    \<lparr>path = ''systemMessage'', type = Nested, field = ''systemMessage'', arrayIndex = None,
      parentField = None\<rparr>] \<noteq> []
   \<and> analyzeSystemPromptPattern
        [\<lparr>logIndex = 0,
          input = JArr [JObj [(''role'', JStr ''system''), (''content'', JStr ''Be brief.'')]],
          hasSystemPrompt = True, hasUserPrompt = False,
          systemPromptLocation =
            Some \<lparr>path = ''[0].content'', type = Array, field = ''content'',
                   arrayIndex = Some 0, parentField = Some ''role''\<rparr>,
          userPromptLocation = None\<rparr>,
         \<lparr>logIndex = 1,
          input = JObj [(''systemMessage'', JStr ''You answer in French.'')],
          hasSystemPrompt = True, hasUserPrompt = False,
          systemPromptLocation =
            Some \<lparr>path = ''systemMessage'', type = Nested, field = ''systemMessage'',
                   arrayIndex = None, parentField = None\<rparr>,
          userPromptLocation = None\<rparr>]
       = Inr \<lparr>path = ''systemMessage'', type = Nested, field = ''systemMessage'',
               arrayIndex = None, parentField = None\<rparr>
   \<and> analyzeUserPromptPattern
        [\<lparr>logIndex = 0,
          input = JArr [JObj [(''role'', JStr ''system''), (''content'', JStr ''Be brief.'')]],
          hasSystemPrompt = False, hasUserPrompt = True,
          systemPromptLocation = None,
          userPromptLocation =
            Some \<lparr>path = ''[0].content'', type = Array, field = ''content'',
                   arrayIndex = Some 0, parentField = Some ''role''\<rparr>\<rparr>,
         \<lparr>logIndex = 1,
          input = JObj [(''systemMessage'', JStr ''You answer in French.'')],
          hasSystemPrompt = False, hasUserPrompt = True,
          systemPromptLocation = None,
          userPromptLocation =
            Some \<lparr>path = ''systemMessage'', type = Nested, field = ''systemMessage'',
                   arrayIndex = None, parentField = None\<rparr>\<rparr>]
       = Inr \<lparr>path = ''systemMessage'', type = Nested, field = ''systemMessage'',
               arrayIndex = None, parentField = None\<rparr>
   \<and> last_most_common
        [\<lparr>path = ''[0].content'', type = Array, field = ''content'', arrayIndex = Some 0,
           parentField = Some ''role''\<rparr>,
         \<lparr>path = ''systemMessage'', type = Nested, field = ''systemMessage'',
           arrayIndex = None, parentField = None\<rparr>]
        \<lparr>path = ''systemMessage'', type = Nested, field = ''systemMessage'',
          arrayIndex = None, parentField = None\<rparr>"
proof -
  let ?dA = "\<lparr>path = ''[0].content'', type = Array, field = ''content'', arrayIndex = Some 0,
      parentField = Some ''role''\<rparr>"
  let ?dB = "\<lparr>path = ''systemMessage'', type = Nested, field = ''systemMessage'',
      arrayIndex = None, parentField = None\<rparr>"
  let ?logs = "[\<lparr>logIndex = 0,
          input = JArr [JObj [(''role'', JStr ''system''), (''content'', JStr ''Be brief.'')]],
          hasSystemPrompt = True, hasUserPrompt = False,
          systemPromptLocation = Some ?dA, userPromptLocation = None\<rparr>,
         \<lparr>logIndex = 1,
          input = JObj [(''systemMessage'', JStr ''You answer in French.'')],
          hasSystemPrompt = True, hasUserPrompt = False,
          systemPromptLocation = Some ?dB, userPromptLocation = None\<rparr>]"
  let ?ulogs = "[\<lparr>logIndex = 0,
          input = JArr [JObj [(''role'', JStr ''system''), (''content'', JStr ''Be brief.'')]],
          hasSystemPrompt = False, hasUserPrompt = True,
          systemPromptLocation = None, userPromptLocation = Some ?dA\<rparr>,
         \<lparr>logIndex = 1,
          input = JObj [(''systemMessage'', JStr ''You answer in French.'')],
          hasSystemPrompt = False, hasUserPrompt = True,
          systemPromptLocation = None, userPromptLocation = Some ?dB\<rparr>]"
  have ne: "[?dA, ?dB] \<noteq> []" by simp
  have run: "analyzeSystemPromptPattern ?logs = Inr ?dB"
    by (simp add: analyzeSystemPromptPattern_def most_common_structure_def bind_err_def
        most_common_key_def structure_key_def)
  have urun: "analyzeUserPromptPattern ?ulogs = Inr ?dB"
    by (simp add: analyzeUserPromptPattern_def most_common_structure_def bind_err_def
        most_common_key_def structure_key_def)
  have s: "map systemPromptLocation ?logs = map Some [?dA, ?dB]" by simp
  have u: "map userPromptLocation ?ulogs = map Some [?dA, ?dB]" by simp
  obtain d where "analyzeSystemPromptPattern ?logs = Inr d"
    and "last_most_common [?dA, ?dB] d"
    using analyze_pattern_last_most_common [OF ne, of ?logs] s by blast
  moreover obtain d' where "analyzeUserPromptPattern ?ulogs = Inr d'"
    and "last_most_common [?dA, ?dB] d'"
    using analyze_pattern_last_most_common [OF ne, of ?ulogs] u by blast
  ultimately show ?thesis using run urun by simp
qed

text \<open>
  The claim C1 as it is written fails: on two logs whose locations form two groups of one
  occurrence each, the analyzer returns the descriptor of the second log, although the
  key of the first log is the first maximal key in insertion order.
\<close>

theorem analyze_pattern_tie_counterexample:
  "analyzeSystemPromptPattern
        [\<lparr>logIndex = 0,
          input = JArr [JObj [(''role'', JStr ''system''), (''content'', JStr ''Be brief.'')]],
          hasSystemPrompt = True, hasUserPrompt = False,
          systemPromptLocation =
            Some \<lparr>path = ''[0].content'', type = Array, field = ''content'',
                   arrayIndex = Some 0, parentField = Some ''role''\<rparr>,
          userPromptLocation = None\<rparr>,
         \<lparr>logIndex = 1,
          input = JObj [(''systemMessage'', JStr ''You answer in French.'')],
          hasSystemPrompt = True, hasUserPrompt = False,
          systemPromptLocation =
            Some \<lparr>path = ''systemMessage'', type = Nested, field = ''systemMessage'',
                   arrayIndex = None, parentField = None\<rparr>,
          userPromptLocation = None\<rparr>]
       = Inr \<lparr>path = ''systemMessage'', type = Nested, field = ''systemMessage'',
               arrayIndex = None, parentField = None\<rparr>
   \<and> group_size
        [\<lparr>path = ''[0].content'', type = Array, field = ''content'', arrayIndex = Some 0,
           parentField = Some ''role''\<rparr>,
         \<lparr>path = ''systemMessage'', type = Nested, field = ''systemMessage'',
           arrayIndex = None, parentField = None\<rparr>]
        \<lparr>path = ''[0].content'', type = Array, field = ''content'', arrayIndex = Some 0,
          parentField = Some ''role''\<rparr> = 1
   \<and> group_size
        [\<lparr>path = ''[0].content'', type = Array, field = ''content'', arrayIndex = Some 0,
           parentField = Some ''role''\<rparr>,
         \<lparr>path = ''systemMessage'', type = Nested, field = ''systemMessage'',
           arrayIndex = None, parentField = None\<rparr>]
        \<lparr>path = ''systemMessage'', type = Nested, field = ''systemMessage'',
          arrayIndex = None, parentField = None\<rparr> = 1
   \<and> \<not> same_group
        \<lparr>path = ''[0].content'', type = Array, field = ''content'', arrayIndex = Some 0,
          parentField = Some ''role''\<rparr>
        \<lparr>path = ''systemMessage'', type = Nested, field = ''systemMessage'',
          arrayIndex = None, parentField = None\<rparr>"
  by (simp add: analyzeSystemPromptPattern_def most_common_structure_def bind_err_def
        most_common_key_def structure_key_def group_size_def same_group_def)

section \<open>Properties of structure persistence\<close>

text \<open>
  Claim C8. For every model and structure, updateModelSystemPromptStructure assigns the
  structure to the model's \<open>systemPromptStructure\<close> field and calls the save operation
  on the model so updated. When the save succeeds, the call returns the updated model
  (and the data store is the one the save left). When the save fails, the call fails
  with that same error: it is rethrown, not swallowed.
\<close>

theorem update_sets_saves_returns:
  "(save (model\<lparr>systemPromptStructure := struct\<rparr>) db = (None, db')
      \<longrightarrow> updateModelSystemPromptStructure save model struct db =
            (Inr (model\<lparr>systemPromptStructure := struct\<rparr>),
             model\<lparr>systemPromptStructure := struct\<rparr>, db')
          \<and> systemPromptStructure (model\<lparr>systemPromptStructure := struct\<rparr>) = struct)
   \<and> (save (model\<lparr>systemPromptStructure := struct\<rparr>) db = (Some e, db')
      \<longrightarrow> fst (updateModelSystemPromptStructure save model struct db) = Inl e
          \<and> snd (snd (updateModelSystemPromptStructure save model struct db)) = db')"
  by (simp add: updateModelSystemPromptStructure_def Let_def)

theorem update_sets_saves_returns_witness:
  "(\<lambda>m db. (None, systemPromptStructure m # db))
      (\<lparr>systemPromptStructure = JNull\<rparr>\<lparr>systemPromptStructure := JStr ''s''\<rparr>) []
     = (None, [JStr ''s''])
   \<and> updateModelSystemPromptStructure (\<lambda>m db. (None, systemPromptStructure m # db))
        \<lparr>systemPromptStructure = JNull\<rparr> (JStr ''s'') []
     = (Inr \<lparr>systemPromptStructure = JStr ''s''\<rparr>, \<lparr>systemPromptStructure = JStr ''s''\<rparr>,
        [JStr ''s''])
   \<and> (\<lambda>m db. (Some (Error ''connection lost''), db))
      (\<lparr>systemPromptStructure = JNull\<rparr>\<lparr>systemPromptStructure := JStr ''s''\<rparr>) ([] :: jsval list)
     = (Some (Error ''connection lost''), [])
   \<and> fst (updateModelSystemPromptStructure (\<lambda>m db. (Some (Error ''connection lost''), db))
        \<lparr>systemPromptStructure = JNull\<rparr> (JStr ''s'') ([] :: jsval list))
     = Inl (Error ''connection lost'')"
  using update_sets_saves_returns
      [where save = "\<lambda>m db. (None, systemPromptStructure m # db)"
         and model = "\<lparr>systemPromptStructure = JNull\<rparr>" and struct = "JStr ''s''"
         and db = "[]" and db' = "[JStr ''s'']"]
    update_sets_saves_returns
      [where save = "\<lambda>m db. (Some (Error ''connection lost''), db)"
         and model = "\<lparr>systemPromptStructure = JNull\<rparr>" and struct = "JStr ''s''"
         and db = "[] :: jsval list" and e = "Error ''connection lost''" and db' = "[]"]
  by simp

text \<open>
  Claim C9. The update is not atomic on error: when the save operation fails, the call
  fails with the error, and the in-memory model it leaves behind has the new structure
  in its \<open>systemPromptStructure\<close> field. The assignment made before the save is not
  rolled back.
\<close>

theorem update_not_rolled_back:
  "save (model\<lparr>systemPromptStructure := struct\<rparr>) db = (Some e, db')
   \<Longrightarrow> updateModelSystemPromptStructure save model struct db =
         (Inl e, model\<lparr>systemPromptStructure := struct\<rparr>, db')
       \<and> systemPromptStructure (fst (snd (updateModelSystemPromptStructure save model struct db)))
           = struct"
  by (simp add: updateModelSystemPromptStructure_def Let_def)

theorem update_not_rolled_back_witness:
  "(\<lambda>m db. (Some (Error ''connection lost''), db))
      (\<lparr>systemPromptStructure = JStr ''old''\<rparr>\<lparr>systemPromptStructure := JStr ''new''\<rparr>)
      ([] :: jsval list)
     = (Some (Error ''connection lost''), [])
   \<and> updateModelSystemPromptStructure (\<lambda>m db. (Some (Error ''connection lost''), db))
        \<lparr>systemPromptStructure = JStr ''old''\<rparr> (JStr ''new'') ([] :: jsval list)
     = (Inl (Error ''connection lost''), \<lparr>systemPromptStructure = JStr ''new''\<rparr>, [])"
  using update_not_rolled_back
      [where save = "\<lambda>m db. (Some (Error ''connection lost''), db)"
         and model = "\<lparr>systemPromptStructure = JStr ''old''\<rparr>" and struct = "JStr ''new''"
         and db = "[] :: jsval list" and e = "Error ''connection lost''" and db' = "[]"]
  by simp

section \<open>Properties of the detection orchestrator\<close>

text \<open>
  Claim C10. The detection result does not depend on the model argument: with the same
  text-generation service and built-ins, and the same logs, any two model values (of any
  types) give the same result and the same requests.
\<close>

theorem detect_ignores_model:
  "detectSystemPromptStructure rt logs m1 = detectSystemPromptStructure rt logs m2"
  by (simp add: detectSystemPromptStructure_def detect_try_def)

lemma findSystemPromptInData_total: "\<exists>m. findSystemPromptInData rt data = Inr m"
  by (cases data) (auto simp: findSystemPromptInData_def probe_patterns_find [OF system_patterns_service]
       split: option.splits)

lemma findUserPromptInData_total: "\<exists>m. findUserPromptInData rt data = Inr m"
  by (cases data) (auto simp: findUserPromptInData_def probe_patterns_find [OF user_patterns_service]
       split: option.splits)

lemma check_patterns_entry:
  "check_patterns rt \<lparr>logIndex = i, input = property l ''input'', hasSystemPrompt = False,
       hasUserPrompt = False, systemPromptLocation = None, userPromptLocation = None\<rparr>
     = Inr (checked_entry rt i l)"
proof -
  obtain m where m: "findSystemPromptInData rt (property l ''input'') = Inr m"
    using findSystemPromptInData_total by blast
  obtain m' where m': "findUserPromptInData rt (property l ''input'') = Inr m'"
    using findUserPromptInData_total by blast
  show ?thesis
    by (cases m; cases m')
       (simp_all add: check_patterns_def checked_entry_def system_match_def user_match_def
          bind_err_def m m')
qed

lemma first_pass_entries:
  "\<forall>l\<in>set ls. l \<noteq> JNull \<and> l \<noteq> JUndefined
   \<Longrightarrow> bind_err (prepare_analysis_data i ls) (first_pass rt) = Inr (checked_entries rt i ls)"
proof (induction ls arbitrary: i)
  case Nil
  then show ?case by (simp add: bind_err_def)
next
  case (Cons l ls)
  have l: "get_member l ''input'' = Inr (property l ''input'')"
    using Cons.prems by (cases l) simp_all
  have "bind_err (prepare_analysis_data (Suc i) ls) (first_pass rt) = Inr (checked_entries rt (Suc i) ls)"
    using Cons by simp
  then obtain ds where p: "prepare_analysis_data (Suc i) ls = Inr ds"
    and f: "first_pass rt ds = Inr (checked_entries rt (Suc i) ls)"
    by (cases "prepare_analysis_data (Suc i) ls") (simp_all add: bind_err_def)
  show ?case
    by (simp add: bind_err_def l p f check_patterns_entry)
qed

lemma system_locations:
  "map systemPromptLocation (filter hasSystemPrompt (checked_entries rt i ls))
     = map Some (List.map_filter (system_match rt) ls)"
  by (induction ls arbitrary: i) (auto simp: checked_entry_def map_filter_simps)

lemma user_locations:
  "map userPromptLocation (filter hasUserPrompt (checked_entries rt i ls))
     = map Some (List.map_filter (user_match rt) ls)"
  by (induction ls arbitrary: i) (auto simp: checked_entry_def map_filter_simps)

lemma system_count:
  "length (filter hasSystemPrompt (checked_entries rt i ls)) = length (List.map_filter (system_match rt) ls)"
  using system_locations [where rt = rt and i = i and ls = ls] by (metis length_map)

lemma user_count:
  "length (filter hasUserPrompt (checked_entries rt i ls)) = length (List.map_filter (user_match rt) ls)"
  using user_locations [where rt = rt and i = i and ls = ls] by (metis length_map)

lemma take_min_length: "take (min n (length xs)) xs = take n xs"
  by (cases "n \<le> length xs") (simp_all add: min_def)

lemma sample_take: "sample_logs (JArr logs) = Inr (take 3 logs)"
  by (simp add: take_min_length)

lemma detect_try_entries:
  assumes "\<forall>l\<in>set (take 3 logs). l \<noteq> JNull \<and> l \<noteq> JUndefined"
  shows "bind_err (sample_logs (JArr logs)) (\<lambda>sampleLogs.
           bind_err (prepare_analysis_data 0 sampleLogs) (first_pass rt))
         = Inr (checked_entries rt 0 (take 3 logs))"
  using first_pass_entries [OF assms, where rt = rt and i = 0] by (simp add: bind_err_def take_min_length)

lemma detect_try_system:
  assumes nn: "\<forall>l\<in>set (take 3 logs). l \<noteq> JNull \<and> l \<noteq> JUndefined"
    and n: "2 \<le> length (List.map_filter (system_match rt) (take 3 logs))"
  shows "\<exists>s. detect_try rt (JArr logs) model =
           (Inr (Detection
              \<lparr>structure = Some s, confidence = 0.9,
               reasoning = ''Detected consistent system prompt structure across ''
                 @ string_of_nat (length (List.map_filter (system_match rt) (take 3 logs)))
                 @ '' logs'',
               promptType = Some ''system''\<rparr>), [])
         \<and> most_common_structure (map Some (List.map_filter (system_match rt) (take 3 logs))) = Inr s
         \<and> last_most_common (List.map_filter (system_match rt) (take 3 logs)) s"
proof -
  let ?sys = "List.map_filter (system_match rt) (take 3 logs)"
  have "?sys \<noteq> []" using n by auto
  then obtain s where s: "most_common_structure (map Some ?sys) = Inr s"
    and l: "last_most_common ?sys s"
    using most_common_structure_Some by blast
  have a: "analyzeSystemPromptPattern (filter hasSystemPrompt (checked_entries rt 0 (take 3 logs)))
      = Inr s"
    by (simp add: analyzeSystemPromptPattern_def system_locations s)
  have "detect_try rt (JArr logs) model =
           (Inr (Detection
              \<lparr>structure = Some s, confidence = 0.9,
               reasoning = ''Detected consistent system prompt structure across ''
                 @ string_of_nat (length ?sys) @ '' logs'',
               promptType = Some ''system''\<rparr>), [])"
    unfolding detect_try_def detect_try_entries [OF nn]
    using n by (simp add: Let_def system_count a bind_err_def)
  then show ?thesis using s l by blast
qed

lemma detect_try_user:
  assumes nn: "\<forall>l\<in>set (take 3 logs). l \<noteq> JNull \<and> l \<noteq> JUndefined"
    and n: "length (List.map_filter (system_match rt) (take 3 logs)) < 2"
    and u: "2 \<le> length (List.map_filter (user_match rt) (take 3 logs))"
  shows "\<exists>s. detect_try rt (JArr logs) model =
           (Inr (Detection
              \<lparr>structure = Some s, confidence = 0.8,
               reasoning = ''Detected consistent user prompt structure across ''
                 @ string_of_nat (length (List.map_filter (user_match rt) (take 3 logs)))
                 @ '' logs (no system prompt found)'',
               promptType = Some ''user''\<rparr>), [])
         \<and> most_common_structure (map Some (List.map_filter (user_match rt) (take 3 logs))) = Inr s
         \<and> last_most_common (List.map_filter (user_match rt) (take 3 logs)) s"
proof -
  let ?usr = "List.map_filter (user_match rt) (take 3 logs)"
  have "?usr \<noteq> []" using u by auto
  then obtain s where s: "most_common_structure (map Some ?usr) = Inr s"
    and l: "last_most_common ?usr s"
    using most_common_structure_Some by blast
  have a: "analyzeUserPromptPattern (filter hasUserPrompt (checked_entries rt 0 (take 3 logs)))
      = Inr s"
    by (simp add: analyzeUserPromptPattern_def user_locations s)
  have "detect_try rt (JArr logs) model =
           (Inr (Detection
              \<lparr>structure = Some s, confidence = 0.8,
               reasoning = ''Detected consistent user prompt structure across ''
                 @ string_of_nat (length ?usr) @ '' logs (no system prompt found)'',
               promptType = Some ''user''\<rparr>), [])"
    unfolding detect_try_def detect_try_entries [OF nn]
    using n u by (simp add: Let_def system_count user_count a bind_err_def)
  then show ?thesis using s l by blast
qed

lemma detect_try_fallback:
  assumes nn: "\<forall>l\<in>set (take 3 logs). l \<noteq> JNull \<and> l \<noteq> JUndefined"
    and n: "length (List.map_filter (system_match rt) (take 3 logs)) < 2"
    and u: "length (List.map_filter (user_match rt) (take 3 logs)) < 2"
  shows "detect_try rt (JArr logs) model =
           (bind_err (generateAIResponse rt
               \<lparr>messages = build_messages rt (checked_entries rt 0 (take 3 logs)),
                responseFormat = SystemPromptStructureSchema\<rparr>) (\<lambda>response.
            bind_err (get_member response ''text'') (\<lambda>text.
            bind_err (JSON_parse rt text) (\<lambda>result. Inr (Parsed result)))),
            [\<lparr>messages = build_messages rt (checked_entries rt 0 (take 3 logs)),
              responseFormat = SystemPromptStructureSchema\<rparr>])"
  unfolding detect_try_def detect_try_entries [OF nn]
  using n u by (simp add: Let_def system_count user_count)

lemma sample_logs_idem:
  "sample_logs (JArr (take (min 3 (length logs)) logs)) = sample_logs (JArr logs)"
proof -
  have "take 3 (take 3 logs) = take 3 logs" by simp
  then show ?thesis by (simp only: sample_take take_min_length)
qed

lemma detect_take:
  "detect_try rt (JArr logs) model = detect_try rt (JArr (take (min 3 (length logs)) logs)) model"
  by (simp only: detect_try_def sample_logs_idem)

text \<open>
  Claim C2. For every list of logs and every model, the orchestrator examines only the
  first \<open>min(3, len(logs))\<close> logs: the result on the list is the result on that sample.
  A log has a system-prompt match when the system-prompt matcher finds a location in its
  \<open>input\<close>; it has a user-prompt match when the system-prompt matcher finds none and the
  user-prompt matcher finds one (the orchestrator looks for a user prompt in no other
  log). Each sampled log is a value whose \<open>input\<close> can be read, that is, not \<open>null\<close>
  or \<open>undefined\<close>. When at least 2 sampled logs have a system-prompt match, the result
  is the structure that the consensus analyzer selects among their locations, with
  confidence 0.9 and promptType \<open>"system"\<close>, whatever the user-prompt matches are.
  Otherwise, when at least 2 sampled logs have a user-prompt match, the result is the
  structure that the consensus analyzer selects among those, with confidence 0.8 and
  promptType \<open>"user"\<close>. In both cases no request is sent to the text-generation service.
\<close>

theorem detect_local_consensus:
  "(let sample = take (min 3 (length logs)) logs;
        sys = List.map_filter (system_match rt) sample;
        usr = List.map_filter (user_match rt) sample
    in detectSystemPromptStructure rt (JArr logs) model
         = detectSystemPromptStructure rt (JArr sample) model
       \<and> ((\<forall>l\<in>set sample. l \<noteq> JNull \<and> l \<noteq> JUndefined) \<longrightarrow> 2 \<le> length sys
            \<longrightarrow> (\<exists>s. detectSystemPromptStructure rt (JArr logs) model =
                      (Inr (Detection
                         \<lparr>structure = Some s, confidence = 0.9,
                          reasoning = ''Detected consistent system prompt structure across ''
                            @ string_of_nat (length sys) @ '' logs'',
                          promptType = Some ''system''\<rparr>), [])
                    \<and> most_common_structure (map Some sys) = Inr s
                    \<and> last_most_common sys s))
       \<and> ((\<forall>l\<in>set sample. l \<noteq> JNull \<and> l \<noteq> JUndefined) \<longrightarrow> length sys < 2
            \<longrightarrow> 2 \<le> length usr
            \<longrightarrow> (\<exists>s. detectSystemPromptStructure rt (JArr logs) model =
                      (Inr (Detection
                         \<lparr>structure = Some s, confidence = 0.8,
                          reasoning = ''Detected consistent user prompt structure across ''
                            @ string_of_nat (length usr) @ '' logs (no system prompt found)'',
                          promptType = Some ''user''\<rparr>), [])
                    \<and> most_common_structure (map Some usr) = Inr s
                    \<and> last_most_common usr s)))"
proof -
  have 1: "detectSystemPromptStructure rt (JArr logs) model
         = detectSystemPromptStructure rt (JArr (take 3 logs)) model"
    using detect_take [of rt logs model]
    by (simp only: detectSystemPromptStructure_def take_min_length)
  have 2: "\<exists>s. detectSystemPromptStructure rt (JArr logs) model =
                      (Inr (Detection
                         \<lparr>structure = Some s, confidence = 0.9,
                          reasoning = ''Detected consistent system prompt structure across ''
                            @ string_of_nat (length (List.map_filter (system_match rt) (take 3 logs)))
                            @ '' logs'',
                          promptType = Some ''system''\<rparr>), [])
                    \<and> most_common_structure (map Some (List.map_filter (system_match rt) (take 3 logs)))
                        = Inr s
                    \<and> last_most_common (List.map_filter (system_match rt) (take 3 logs)) s"
    if nn: "\<forall>l\<in>set (take 3 logs). l \<noteq> JNull \<and> l \<noteq> JUndefined"
      and n: "2 \<le> length (List.map_filter (system_match rt) (take 3 logs))"
  proof -
    obtain s where "detect_try rt (JArr logs) model =
           (Inr (Detection
              \<lparr>structure = Some s, confidence = 0.9,
               reasoning = ''Detected consistent system prompt structure across ''
                 @ string_of_nat (length (List.map_filter (system_match rt) (take 3 logs)))
                 @ '' logs'',
               promptType = Some ''system''\<rparr>), [])"
      and "most_common_structure (map Some (List.map_filter (system_match rt) (take 3 logs))) = Inr s"
      and "last_most_common (List.map_filter (system_match rt) (take 3 logs)) s"
      using detect_try_system [OF nn n, where model = model] by blast
    then show ?thesis by (simp add: detectSystemPromptStructure_def)
  qed
  have 3: "\<exists>s. detectSystemPromptStructure rt (JArr logs) model =
                      (Inr (Detection
                         \<lparr>structure = Some s, confidence = 0.8,
                          reasoning = ''Detected consistent user prompt structure across ''
                            @ string_of_nat (length (List.map_filter (user_match rt) (take 3 logs)))
                            @ '' logs (no system prompt found)'',
                          promptType = Some ''user''\<rparr>), [])
                    \<and> most_common_structure (map Some (List.map_filter (user_match rt) (take 3 logs)))
                        = Inr s
                    \<and> last_most_common (List.map_filter (user_match rt) (take 3 logs)) s"
    if nn: "\<forall>l\<in>set (take 3 logs). l \<noteq> JNull \<and> l \<noteq> JUndefined"
      and n: "length (List.map_filter (system_match rt) (take 3 logs)) < 2"
      and u: "2 \<le> length (List.map_filter (user_match rt) (take 3 logs))"
  proof -
    obtain s where "detect_try rt (JArr logs) model =
           (Inr (Detection
              \<lparr>structure = Some s, confidence = 0.8,
               reasoning = ''Detected consistent user prompt structure across ''
                 @ string_of_nat (length (List.map_filter (user_match rt) (take 3 logs)))
                 @ '' logs (no system prompt found)'',
               promptType = Some ''user''\<rparr>), [])"
      and "most_common_structure (map Some (List.map_filter (user_match rt) (take 3 logs))) = Inr s"
      and "last_most_common (List.map_filter (user_match rt) (take 3 logs)) s"
      using detect_try_user [OF nn n u, where model = model] by blast
    then show ?thesis by (simp add: detectSystemPromptStructure_def)
  qed
  show ?thesis
    unfolding Let_def take_min_length using 1 2 3 by blast
qed

lemmas eval_defs = system_match_def user_match_def findSystemPromptInData_def
  findUserPromptInData_def is_role_message_def system_patterns_def
  user_patterns_def getNestedValue_service service_keys_def bind_err_def map_filter_simps
  string_of_nat.simps digit_char_def

theorem detect_local_consensus_witness:
  "list_all (\<lambda>l. l \<noteq> JNull \<and> l \<noteq> JUndefined)
     [JObj [(''input'', JArr [JObj [(''role'', JStr ''system''), (''content'', JStr ''Be brief.'')]])],
      JObj [(''input'', JNum 7)],
      JObj [(''input'', JArr [JObj [(''role'', JStr ''system''), (''content'', JStr ''Be kind.'')]])]]
   \<and> List.map_filter (system_match
       \<lparr>generateAIResponse = (\<lambda>request. Inl (Error ''service unavailable'')),
        JSON_parse = (\<lambda>text. Inl (SyntaxError ''Unexpected end of JSON input'')),
        JSON_stringify = (\<lambda>v. ''[]''),
        template_string = (\<lambda>v. case v of JStr s \<Rightarrow> s | _ \<Rightarrow> ''undefined''),
        prototype_member = (\<lambda>v k. Inr (Data JUndefined)),
        builtin_member = (\<lambda>n k. Inr (Data JUndefined))\<rparr>)
       [JObj [(''input'', JArr [JObj [(''role'', JStr ''system''), (''content'', JStr ''Be brief.'')]])],
        JObj [(''input'', JNum 7)],
        JObj [(''input'', JArr [JObj [(''role'', JStr ''system''), (''content'', JStr ''Be kind.'')]])]]
     = [\<lparr>path = ''[0].content'', type = Array, field = ''content'', arrayIndex = Some 0,
          parentField = Some ''role''\<rparr>,
        \<lparr>path = ''[0].content'', type = Array, field = ''content'', arrayIndex = Some 0,
          parentField = Some ''role''\<rparr>]
   \<and> detectSystemPromptStructure
       \<lparr>generateAIResponse = (\<lambda>request. Inl (Error ''service unavailable'')),
        JSON_parse = (\<lambda>text. Inl (SyntaxError ''Unexpected end of JSON input'')),
        JSON_stringify = (\<lambda>v. ''[]''),
        template_string = (\<lambda>v. case v of JStr s \<Rightarrow> s | _ \<Rightarrow> ''undefined''),
        prototype_member = (\<lambda>v k. Inr (Data JUndefined)),
        builtin_member = (\<lambda>n k. Inr (Data JUndefined))\<rparr>
       (JArr
         [JObj [(''input'', JArr [JObj [(''role'', JStr ''system''), (''content'', JStr ''Be brief.'')]])],
          JObj [(''input'', JNum 7)],
          JObj [(''input'', JArr [JObj [(''role'', JStr ''system''), (''content'', JStr ''Be kind.'')]])],
          JNull])
       ()
     = (Inr (Detection
          \<lparr>structure = Some \<lparr>path = ''[0].content'', type = Array, field = ''content'',
                              arrayIndex = Some 0, parentField = Some ''role''\<rparr>,
           confidence = 0.9,
           reasoning = ''Detected consistent system prompt structure across 2 logs'',
           promptType = Some ''system''\<rparr>), [])
   \<and> list_all (\<lambda>l. l \<noteq> JNull \<and> l \<noteq> JUndefined)
     [JObj [(''input'', JArr [JObj [(''role'', JStr ''system''), (''content'', JStr ''Be brief.'')]])],
      JObj [(''input'', JObj [(''query'', JStr ''What is the capital of France?'')])],
      JObj [(''input'', JObj [(''query'', JStr ''Summarise this article.'')])]]
   \<and> List.map_filter (system_match
       \<lparr>generateAIResponse = (\<lambda>request. Inl (Error ''service unavailable'')),
        JSON_parse = (\<lambda>text. Inl (SyntaxError ''Unexpected end of JSON input'')),
        JSON_stringify = (\<lambda>v. ''[]''),
        template_string = (\<lambda>v. case v of JStr s \<Rightarrow> s | _ \<Rightarrow> ''undefined''),
        prototype_member = (\<lambda>v k. Inr (Data JUndefined)),
        builtin_member = (\<lambda>n k. Inr (Data JUndefined))\<rparr>)
       [JObj [(''input'', JArr [JObj [(''role'', JStr ''system''), (''content'', JStr ''Be brief.'')]])],
        JObj [(''input'', JObj [(''query'', JStr ''What is the capital of France?'')])],
        JObj [(''input'', JObj [(''query'', JStr ''Summarise this article.'')])]]
     = [\<lparr>path = ''[0].content'', type = Array, field = ''content'', arrayIndex = Some 0,
          parentField = Some ''role''\<rparr>]
   \<and> List.map_filter (user_match
       \<lparr>generateAIResponse = (\<lambda>request. Inl (Error ''service unavailable'')),
        JSON_parse = (\<lambda>text. Inl (SyntaxError ''Unexpected end of JSON input'')),
        JSON_stringify = (\<lambda>v. ''[]''),
        template_string = (\<lambda>v. case v of JStr s \<Rightarrow> s | _ \<Rightarrow> ''undefined''),
        prototype_member = (\<lambda>v k. Inr (Data JUndefined)),
        builtin_member = (\<lambda>n k. Inr (Data JUndefined))\<rparr>)
       [JObj [(''input'', JArr [JObj [(''role'', JStr ''system''), (''content'', JStr ''Be brief.'')]])],
        JObj [(''input'', JObj [(''query'', JStr ''What is the capital of France?'')])],
        JObj [(''input'', JObj [(''query'', JStr ''Summarise this article.'')])]]
     = [\<lparr>path = ''query'', type = Nested, field = ''query'', arrayIndex = None,
          parentField = None\<rparr>,
        \<lparr>path = ''query'', type = Nested, field = ''query'', arrayIndex = None,
          parentField = None\<rparr>]
   \<and> detectSystemPromptStructure
       \<lparr>generateAIResponse = (\<lambda>request. Inl (Error ''service unavailable'')),
        JSON_parse = (\<lambda>text. Inl (SyntaxError ''Unexpected end of JSON input'')),
        JSON_stringify = (\<lambda>v. ''[]''),
        template_string = (\<lambda>v. case v of JStr s \<Rightarrow> s | _ \<Rightarrow> ''undefined''),
        prototype_member = (\<lambda>v k. Inr (Data JUndefined)),
        builtin_member = (\<lambda>n k. Inr (Data JUndefined))\<rparr>
       (JArr
         [JObj [(''input'', JArr [JObj [(''role'', JStr ''system''), (''content'', JStr ''Be brief.'')]])],
          JObj [(''input'', JObj [(''query'', JStr ''What is the capital of France?'')])],
          JObj [(''input'', JObj [(''query'', JStr ''Summarise this article.'')])]])
       ()
     = (Inr (Detection
          \<lparr>structure = Some \<lparr>path = ''query'', type = Nested, field = ''query'',
                              arrayIndex = None, parentField = None\<rparr>,
           confidence = 0.8,
           reasoning = ''Detected consistent user prompt structure across 2 logs (no system prompt found)'',
           promptType = Some ''user''\<rparr>), [])"
proof -
  let ?a = "JObj [(''input'', JArr [JObj [(''role'', JStr ''system''), (''content'', JStr ''Be brief.'')]])]"
  let ?b = "JObj [(''input'', JNum 7)]"
  let ?c = "JObj [(''input'', JArr [JObj [(''role'', JStr ''system''), (''content'', JStr ''Be kind.'')]])]"
  let ?u = "JObj [(''input'', JObj [(''query'', JStr ''What is the capital of France?'')])]"
  let ?v = "JObj [(''input'', JObj [(''query'', JStr ''Summarise this article.'')])]"
  let ?d = "\<lparr>path = ''[0].content'', type = Array, field = ''content'', arrayIndex = Some 0,
          parentField = Some ''role''\<rparr>"
  let ?q = "\<lparr>path = ''query'', type = Nested, field = ''query'', arrayIndex = None,
          parentField = None\<rparr>"
  let ?rt = "\<lparr>generateAIResponse = (\<lambda>request. Inl (Error ''service unavailable'')),
        JSON_parse = (\<lambda>text. Inl (SyntaxError ''Unexpected end of JSON input'')),
        JSON_stringify = (\<lambda>v. ''[]''),
        template_string = (\<lambda>v. case v of JStr s \<Rightarrow> s | _ \<Rightarrow> ''undefined''),
        prototype_member = (\<lambda>v k. Inr (Data JUndefined)),
        builtin_member = (\<lambda>n k. Inr (Data JUndefined))\<rparr>"
  have two: "string_of_nat (length [x, y]) = ''2''" for x y :: descriptor
    by (simp add: string_of_nat.simps digit_char_def)
  have a: "system_match ?rt ?a = Some ?d" by (simp add: eval_defs)
  have b: "system_match ?rt ?b = None" by (simp add: eval_defs)
  have c: "system_match ?rt ?c = Some ?d" by (simp add: eval_defs)
  have su: "system_match ?rt ?u = None" by (simp add: eval_defs)
  have sv: "system_match ?rt ?v = None" by (simp add: eval_defs)
  have ua: "user_match ?rt ?a = None" by (simp add: user_match_def a)
  have uu: "user_match ?rt ?u = Some ?q" by (simp add: user_match_def su) (simp add: eval_defs)
  have uv: "user_match ?rt ?v = Some ?q" by (simp add: user_match_def sv) (simp add: eval_defs)
  have sample1: "take (min 3 (length [?a, ?b, ?c, JNull])) [?a, ?b, ?c, JNull] = [?a, ?b, ?c]"
    by simp
  have sample2: "take (min 3 (length [?a, ?u, ?v])) [?a, ?u, ?v] = [?a, ?u, ?v]"
    by simp
  have sys1: "List.map_filter (system_match ?rt) [?a, ?b, ?c] = [?d, ?d]"
    by (simp add: map_filter_simps a b c)
  have sys2: "List.map_filter (system_match ?rt) [?a, ?u, ?v] = [?d]"
    by (simp add: map_filter_simps a su sv)
  have usr2: "List.map_filter (user_match ?rt) [?a, ?u, ?v] = [?q, ?q]"
    by (simp add: map_filter_simps ua uu uv)
  have nn1: "\<forall>l\<in>set [?a, ?b, ?c]. l \<noteq> JNull \<and> l \<noteq> JUndefined" by simp
  have nn2: "\<forall>l\<in>set [?a, ?u, ?v]. l \<noteq> JNull \<and> l \<noteq> JUndefined" by simp
  have mc1: "most_common_structure (map Some [?d, ?d]) = Inr ?d"
    by (simp add: most_common_structure_def bind_err_def most_common_key_def structure_key_def)
  have mc2: "most_common_structure (map Some [?q, ?q]) = Inr ?q"
    by (simp add: most_common_structure_def bind_err_def most_common_key_def structure_key_def)
  have n1: "2 \<le> length [?d, ?d]" by simp
  have n2: "length [?d] < 2" by simp
  have n3: "2 \<le> length [?q, ?q]" by simp
  note T1 = detect_local_consensus [where logs = "[?a, ?b, ?c, JNull]" and rt = ?rt and model = "()",
      unfolded Let_def sample1 sys1]
  note T2 = detect_local_consensus [where logs = "[?a, ?u, ?v]" and rt = ?rt and model = "()",
      unfolded Let_def sample2 sys2 usr2]
  obtain s where r1: "detectSystemPromptStructure ?rt (JArr [?a, ?b, ?c, JNull]) () =
      (Inr (Detection
         \<lparr>structure = Some s, confidence = 0.9,
          reasoning = ''Detected consistent system prompt structure across ''
            @ string_of_nat (length [?d, ?d]) @ '' logs'',
          promptType = Some ''system''\<rparr>), [])"
    and m1: "most_common_structure (map Some [?d, ?d]) = Inr s"
    using T1 [THEN conjunct2, THEN conjunct1, THEN mp, OF nn1, THEN mp, OF n1]
    by (elim exE conjE)
  obtain t where r2: "detectSystemPromptStructure ?rt (JArr [?a, ?u, ?v]) () =
      (Inr (Detection
         \<lparr>structure = Some t, confidence = 0.8,
          reasoning = ''Detected consistent user prompt structure across ''
            @ string_of_nat (length [?q, ?q]) @ '' logs (no system prompt found)'',
          promptType = Some ''user''\<rparr>), [])"
    and m2: "most_common_structure (map Some [?q, ?q]) = Inr t"
    using T2 [THEN conjunct2, THEN conjunct2, THEN mp, OF nn2, THEN mp, OF n2, THEN mp, OF n3]
    by (elim exE conjE)
  have s: "s = ?d" using m1 mc1 by simp
  have t: "t = ?q" using m2 mc2 by simp
  have l1: "list_all (\<lambda>l. l \<noteq> JNull \<and> l \<noteq> JUndefined) [?a, ?b, ?c]" by simp
  have l2: "list_all (\<lambda>l. l \<noteq> JNull \<and> l \<noteq> JUndefined) [?a, ?u, ?v]" by simp
  have e1: "detectSystemPromptStructure ?rt (JArr [?a, ?b, ?c, JNull]) () =
      (Inr (Detection
         \<lparr>structure = Some ?d, confidence = 0.9,
          reasoning = ''Detected consistent system prompt structure across 2 logs'',
          promptType = Some ''system''\<rparr>), [])"
    using r1 unfolding two s by simp
  have e2: "detectSystemPromptStructure ?rt (JArr [?a, ?u, ?v]) () =
      (Inr (Detection
         \<lparr>structure = Some ?q, confidence = 0.8,
          reasoning = ''Detected consistent user prompt structure across 2 logs (no system prompt found)'',
          promptType = Some ''user''\<rparr>), [])"
    using r2 unfolding two t by simp
  show ?thesis
    by (intro conjI) (rule l1 sys1 e1 l2 sys2 usr2 e2)+
qed

text \<open>
  Claim C4. When fewer than 2 sampled logs have a system-prompt match and fewer than 2
  have a user-prompt match (each sampled log being a value whose \<open>input\<close> can be read),
  the orchestrator sends exactly one request to the text-generation service, built from
  the sampled inputs, and when that call answers with a response whose \<open>text\<close>
  \<open>JSON.parse\<close> accepts, the parsed value is the result, unmodified.
\<close>

theorem detect_fallback_once:
  "(let sample = take (min 3 (length logs)) logs;
        sys = List.map_filter (system_match rt) sample;
        usr = List.map_filter (user_match rt) sample;
        request = \<lparr>messages = build_messages rt (checked_entries rt 0 sample),
                   responseFormat = SystemPromptStructureSchema\<rparr>
    in (\<forall>l\<in>set sample. l \<noteq> JNull \<and> l \<noteq> JUndefined) \<longrightarrow> length sys < 2
       \<longrightarrow> length usr < 2
       \<longrightarrow> snd (detectSystemPromptStructure rt (JArr logs) model) = [request]
           \<and> (\<forall>response text result.
                 generateAIResponse rt request = Inr response
                 \<longrightarrow> get_member response ''text'' = Inr text
                 \<longrightarrow> JSON_parse rt text = Inr result
                 \<longrightarrow> fst (detectSystemPromptStructure rt (JArr logs) model)
                       = Inr (Parsed result)))"
proof -
  have "snd (detectSystemPromptStructure rt (JArr logs) model)
          = [\<lparr>messages = build_messages rt (checked_entries rt 0 (take 3 logs)),
               responseFormat = SystemPromptStructureSchema\<rparr>]
        \<and> (\<forall>response text result.
              generateAIResponse rt
                \<lparr>messages = build_messages rt (checked_entries rt 0 (take 3 logs)),
                 responseFormat = SystemPromptStructureSchema\<rparr> = Inr response
              \<longrightarrow> get_member response ''text'' = Inr text
              \<longrightarrow> JSON_parse rt text = Inr result
              \<longrightarrow> fst (detectSystemPromptStructure rt (JArr logs) model) = Inr (Parsed result))"
    if "\<forall>l\<in>set (take 3 logs). l \<noteq> JNull \<and> l \<noteq> JUndefined"
      and "length (List.map_filter (system_match rt) (take 3 logs)) < 2"
      and "length (List.map_filter (user_match rt) (take 3 logs)) < 2"
    unfolding detectSystemPromptStructure_def detect_try_fallback [OF that]
    by (auto simp: bind_err_def split: sum.splits)
  then show ?thesis
    unfolding Let_def take_min_length by blast
qed

theorem detect_fallback_once_witness:
  "list_all (\<lambda>l. l \<noteq> JNull \<and> l \<noteq> JUndefined)
     [JObj [(''input'', JObj [(''query'', JStr ''What is the capital of France?'')])]]
   \<and> List.map_filter (system_match
       \<lparr>generateAIResponse = (\<lambda>request. Inr (JObj [(''text'', JStr ''42'')])),
          JSON_parse = (\<lambda>text. if text = JStr ''42'' then Inr (JNum 42)
                                 else Inl (SyntaxError ''Unexpected token'')),
          JSON_stringify = (\<lambda>v. ''[]''),
        template_string = (\<lambda>v. case v of JStr s \<Rightarrow> s | _ \<Rightarrow> ''undefined''),
        prototype_member = (\<lambda>v k. Inr (Data JUndefined)),
        builtin_member = (\<lambda>n k. Inr (Data JUndefined))\<rparr>)
       [JObj [(''input'', JObj [(''query'', JStr ''What is the capital of France?'')])]] = []
   \<and> List.map_filter (user_match
       \<lparr>generateAIResponse = (\<lambda>request. Inr (JObj [(''text'', JStr ''42'')])),
          JSON_parse = (\<lambda>text. if text = JStr ''42'' then Inr (JNum 42)
                                 else Inl (SyntaxError ''Unexpected token'')),
          JSON_stringify = (\<lambda>v. ''[]''),
        template_string = (\<lambda>v. case v of JStr s \<Rightarrow> s | _ \<Rightarrow> ''undefined''),
        prototype_member = (\<lambda>v k. Inr (Data JUndefined)),
        builtin_member = (\<lambda>n k. Inr (Data JUndefined))\<rparr>)
       [JObj [(''input'', JObj [(''query'', JStr ''What is the capital of France?'')])]]
     = [\<lparr>path = ''query'', type = Nested, field = ''query'', arrayIndex = None,
          parentField = None\<rparr>]
   \<and> snd (detectSystemPromptStructure
         \<lparr>generateAIResponse = (\<lambda>request. Inr (JObj [(''text'', JStr ''42'')])),
          JSON_parse = (\<lambda>text. if text = JStr ''42'' then Inr (JNum 42)
                                 else Inl (SyntaxError ''Unexpected token'')),
          JSON_stringify = (\<lambda>v. ''[]''),
        template_string = (\<lambda>v. case v of JStr s \<Rightarrow> s | _ \<Rightarrow> ''undefined''),
        prototype_member = (\<lambda>v k. Inr (Data JUndefined)),
        builtin_member = (\<lambda>n k. Inr (Data JUndefined))\<rparr>
         (JArr [JObj [(''input'', JObj [(''query'', JStr ''What is the capital of France?'')])]])
         ())
     = [\<lparr>messages = build_messages
           \<lparr>generateAIResponse = (\<lambda>request. Inr (JObj [(''text'', JStr ''42'')])),
            JSON_parse = (\<lambda>text. if text = JStr ''42'' then Inr (JNum 42)
                                   else Inl (SyntaxError ''Unexpected token'')),
            JSON_stringify = (\<lambda>v. ''[]''),
        template_string = (\<lambda>v. case v of JStr s \<Rightarrow> s | _ \<Rightarrow> ''undefined''),
        prototype_member = (\<lambda>v k. Inr (Data JUndefined)),
        builtin_member = (\<lambda>n k. Inr (Data JUndefined))\<rparr>
           (checked_entries
              \<lparr>generateAIResponse = (\<lambda>request. Inr (JObj [(''text'', JStr ''42'')])),
              JSON_parse = (\<lambda>text. if text = JStr ''42'' then Inr (JNum 42)
                                     else Inl (SyntaxError ''Unexpected token'')),
              JSON_stringify = (\<lambda>v. ''[]''),
        template_string = (\<lambda>v. case v of JStr s \<Rightarrow> s | _ \<Rightarrow> ''undefined''),
        prototype_member = (\<lambda>v k. Inr (Data JUndefined)),
        builtin_member = (\<lambda>n k. Inr (Data JUndefined))\<rparr>
              0
             [JObj [(''input'', JObj [(''query'', JStr ''What is the capital of France?'')])]]),
         responseFormat = SystemPromptStructureSchema\<rparr>]
   \<and> fst (detectSystemPromptStructure
         \<lparr>generateAIResponse = (\<lambda>request. Inr (JObj [(''text'', JStr ''42'')])),
          JSON_parse = (\<lambda>text. if text = JStr ''42'' then Inr (JNum 42)
                                 else Inl (SyntaxError ''Unexpected token'')),
          JSON_stringify = (\<lambda>v. ''[]''),
        template_string = (\<lambda>v. case v of JStr s \<Rightarrow> s | _ \<Rightarrow> ''undefined''),
        prototype_member = (\<lambda>v k. Inr (Data JUndefined)),
        builtin_member = (\<lambda>n k. Inr (Data JUndefined))\<rparr>
         (JArr [JObj [(''input'', JObj [(''query'', JStr ''What is the capital of France?'')])]])
         ())
     = Inr (Parsed (JNum 42))"
proof -
  let ?u = "JObj [(''input'', JObj [(''query'', JStr ''What is the capital of France?'')])]"
  let ?q = "\<lparr>path = ''query'', type = Nested, field = ''query'', arrayIndex = None,
          parentField = None\<rparr>"
  let ?rt = "\<lparr>generateAIResponse = (\<lambda>request. Inr (JObj [(''text'', JStr ''42'')])),
          JSON_parse = (\<lambda>text. if text = JStr ''42'' then Inr (JNum 42)
                                 else Inl (SyntaxError ''Unexpected token'')),
          JSON_stringify = (\<lambda>v. ''[]''),
        template_string = (\<lambda>v. case v of JStr s \<Rightarrow> s | _ \<Rightarrow> ''undefined''),
        prototype_member = (\<lambda>v k. Inr (Data JUndefined)),
        builtin_member = (\<lambda>n k. Inr (Data JUndefined))\<rparr>"
  let ?req = "\<lparr>messages = build_messages ?rt (checked_entries ?rt 0 [?u]),
         responseFormat = SystemPromptStructureSchema\<rparr>"
  have su: "system_match ?rt ?u = None" by (simp add: eval_defs)
  have uu: "user_match ?rt ?u = Some ?q" by (simp add: user_match_def su) (simp add: eval_defs)
  have sample: "take (min 3 (length [?u])) [?u] = [?u]" by simp
  have sys: "List.map_filter (system_match ?rt) [?u] = []" by (simp add: map_filter_simps su)
  have usr: "List.map_filter (user_match ?rt) [?u] = [?q]" by (simp add: map_filter_simps uu)
  have nn: "\<forall>l\<in>set [?u]. l \<noteq> JNull \<and> l \<noteq> JUndefined" by simp
  have n1: "length ([] :: descriptor list) < 2" by simp
  have n2: "length [?q] < 2" by simp
  note T = detect_fallback_once [where logs = "[?u]" and rt = ?rt and model = "()", unfolded Let_def sample sys usr]
  note U = T [THEN mp, OF nn, THEN mp, OF n1, THEN mp, OF n2]
  have g: "generateAIResponse ?rt ?req = Inr (JObj [(''text'', JStr ''42'')])" by simp
  have m: "get_member (JObj [(''text'', JStr ''42'')]) ''text'' = Inr (JStr ''42'')" by simp
  have p: "JSON_parse ?rt (JStr ''42'') = Inr (JNum 42)" by simp
  have calls: "snd (detectSystemPromptStructure ?rt (JArr [?u]) ()) = [?req]"
    by (rule U [THEN conjunct1])
  have res: "fst (detectSystemPromptStructure ?rt (JArr [?u]) ()) = Inr (Parsed (JNum 42))"
    by (rule U [THEN conjunct2, THEN spec, THEN spec, THEN spec, THEN mp, OF g, THEN mp, OF m,
          THEN mp, OF p])
  have l: "list_all (\<lambda>l. l \<noteq> JNull \<and> l \<noteq> JUndefined) [?u]" by simp
  show ?thesis
    by (intro conjI) (rule l sys usr calls res)+
qed

lemma error_message_total:
  "e \<noteq> Thrown JNull \<Longrightarrow> e \<noteq> Thrown JUndefined \<Longrightarrow> \<exists>m. error_message rt e = Inr m"
proof (cases e)
  case (Thrown v)
  assume "e \<noteq> Thrown JNull" "e \<noteq> Thrown JUndefined"
  then show ?thesis using Thrown by (cases v) (simp_all add: bind_err_def)
qed simp_all

lemma detect_passes_result:
  "fst (detect_try rt logs model) = Inr r
   \<Longrightarrow> fst (detectSystemPromptStructure rt logs model) = Inr r"
  by (cases "detect_try rt logs model") (simp add: detectSystemPromptStructure_def)

lemma detect_catches:
  "fst (detect_try rt logs model) = Inl e
   \<Longrightarrow> fst (detectSystemPromptStructure rt logs model) =
         bind_err (error_message rt e) (\<lambda>m.
           Inr (Detection \<lparr>structure = None, confidence = 0,
                           reasoning = ''Error during detection: '' @ m,
                           promptType = None\<rparr>))"
  by (cases "detect_try rt logs model") (simp add: detectSystemPromptStructure_def)

lemma detect_returns_unless_nullish_thrown:
  assumes "fst (detect_try rt logs model) \<noteq> Inl (Thrown JNull)"
    and "fst (detect_try rt logs model) \<noteq> Inl (Thrown JUndefined)"
  shows "\<exists>r. fst (detectSystemPromptStructure rt logs model) = Inr r"
proof (cases "fst (detect_try rt logs model)")
  case (Inl e)
  then have "e \<noteq> Thrown JNull" "e \<noteq> Thrown JUndefined" using assms by auto
  then obtain m where "error_message rt e = Inr m"
    using error_message_total by blast
  then show ?thesis by (simp add: detect_catches [OF Inl] bind_err_def)
next
  case (Inr r)
  then show ?thesis by (simp add: detect_passes_result)
qed

text \<open>
  Claim C3 says that detectSystemPromptStructure never rejects: that an error raised at
  any stage is turned into the failure record. The code does so for every Error object
  and for every thrown value other than \<open>null\<close> and \<open>undefined\<close> (the two lemmas
  above). When the text-generation service throws \<open>null\<close>, or rejects with
  \<open>undefined\<close>, the \<open>catch\<close> block itself raises, on reading \<open>error.message\<close>, and
  the caller gets that TypeError. With a service that rejects with an Error, the same
  call returns the failure record.
\<close>

theorem detect_rejects_thrown_null:
  "fst (detectSystemPromptStructure
         \<lparr>generateAIResponse = (\<lambda>request. Inl (Thrown JNull)),
          JSON_parse = (\<lambda>text. Inl (SyntaxError ''Unexpected end of JSON input'')),
          JSON_stringify = (\<lambda>v. ''[]''),
          template_string = (\<lambda>v. case v of JStr s \<Rightarrow> s | _ \<Rightarrow> ''undefined''),
          prototype_member = (\<lambda>v k. Inr (Data JUndefined)),
          builtin_member = (\<lambda>n k. Inr (Data JUndefined))\<rparr> (JArr []) ())
     = Inl (TypeError ''Cannot read properties of null (reading 'message')'')
   \<and> fst (detectSystemPromptStructure
         \<lparr>generateAIResponse = (\<lambda>request. Inl (Thrown JUndefined)),
          JSON_parse = (\<lambda>text. Inl (SyntaxError ''Unexpected end of JSON input'')),
          JSON_stringify = (\<lambda>v. ''[]''),
          template_string = (\<lambda>v. case v of JStr s \<Rightarrow> s | _ \<Rightarrow> ''undefined''),
          prototype_member = (\<lambda>v k. Inr (Data JUndefined)),
          builtin_member = (\<lambda>n k. Inr (Data JUndefined))\<rparr> (JArr []) ())
     = Inl (TypeError ''Cannot read properties of undefined (reading 'message')'')
   \<and> fst (detectSystemPromptStructure
         \<lparr>generateAIResponse = (\<lambda>request. Inl (Error ''service unavailable'')),
          JSON_parse = (\<lambda>text. Inl (SyntaxError ''Unexpected end of JSON input'')),
          JSON_stringify = (\<lambda>v. ''[]''),
          template_string = (\<lambda>v. case v of JStr s \<Rightarrow> s | _ \<Rightarrow> ''undefined''),
          prototype_member = (\<lambda>v k. Inr (Data JUndefined)),
          builtin_member = (\<lambda>n k. Inr (Data JUndefined))\<rparr> (JArr []) ())
     = Inr (Detection
         \<lparr>structure = None, confidence = 0,
          reasoning = ''Error during detection: service unavailable'',
          promptType = None\<rparr>)"
proof -
  let ?rt = "\<lambda>e. \<lparr>generateAIResponse = (\<lambda>request. Inl e),
          JSON_parse = (\<lambda>text. Inl (SyntaxError ''Unexpected end of JSON input'')),
          JSON_stringify = (\<lambda>v. ''[]''),
          template_string = (\<lambda>v. case v of JStr s \<Rightarrow> s | _ \<Rightarrow> ''undefined''),
          prototype_member = (\<lambda>v k. Inr (Data JUndefined)),
          builtin_member = (\<lambda>n k. Inr (Data JUndefined))\<rparr>"
  have t: "fst (detect_try (?rt e) (JArr []) ()) = Inl e" for e
    by (simp add: detect_try_def bind_err_def Let_def)
  have 1: "fst (detectSystemPromptStructure (?rt (Thrown JNull)) (JArr []) ())
      = Inl (TypeError ''Cannot read properties of null (reading 'message')'')"
    by (simp add: detect_catches [OF t] bind_err_def)
  have 2: "fst (detectSystemPromptStructure (?rt (Thrown JUndefined)) (JArr []) ())
      = Inl (TypeError ''Cannot read properties of undefined (reading 'message')'')"
    by (simp add: detect_catches [OF t] bind_err_def)
  have 3: "fst (detectSystemPromptStructure (?rt (Error ''service unavailable'')) (JArr []) ())
      = Inr (Detection
         \<lparr>structure = None, confidence = 0,
          reasoning = ''Error during detection: service unavailable'',
          promptType = None\<rparr>)"
    by (simp add: detect_catches [OF t] bind_err_def)
  show ?thesis using 1 2 3 by simp
qed

end
